theory Spec2Isabelle
  imports Complex_Main "HOL-Library.Char_ord" "HOL-Library.List_Lexorder"
begin

section \<open>Cell values and the Python operations applied to them\<close>

text \<open>
  A cell is what \<open>row.get(col, default)\<close> hands to the analyser. The rows come from
  \<open>df.iterrows()\<close>: a row of a sheet whose columns are all integers holds numpy int64
  values (\<open>VInt64\<close>), whose sums and products wrap around modulo \<open>2 ^ 64\<close>; in a row of a
  sheet with a text column the integers are Python integers (\<open>VInt\<close>), which are
  unbounded, as are the defaults and constants of the analyser. A float is modelled by
  the rational it denotes (rounding of binary floating point is not modelled); the
  missing value NaN is a value of its own, because every comparison with it is false
  and it survives arithmetic. A string is a list of characters, one \<open>char\<close> per
  character of the Python string.
\<close>

datatype cell = VInt int | VInt64 int | VFloat rat | VStr string | VNaN

text \<open>The signed 64-bit range and the wrap-around of numpy's int64 arithmetic.\<close>

definition in_int64 :: "int \<Rightarrow> bool" where
  "in_int64 n = (- (2 ^ 63) \<le> n \<and> n < 2 ^ 63)"

definition wrap64 :: "int \<Rightarrow> int" where
  "wrap64 n = (n + 2 ^ 63) mod 2 ^ 64 - 2 ^ 63"

datatype error =
  KeyError | IndexError | TypeError | ValueError | ZeroDivisionError | OverflowError

definition bindE :: "error + 'a \<Rightarrow> ('a \<Rightarrow> error + 'b) \<Rightarrow> error + 'b" where
  "bindE m f = (case m of Inl e \<Rightarrow> Inl e | Inr x \<Rightarrow> f x)"

fun mapE :: "('a \<Rightarrow> error + 'b) \<Rightarrow> 'a list \<Rightarrow> error + 'b list" where
  "mapE f [] = Inr []"
| "mapE f (x # xs) = bindE (f x) (\<lambda>y. bindE (mapE f xs) (\<lambda>ys. Inr (y # ys)))"

fun num_of :: "cell \<Rightarrow> rat option" where
  "num_of (VInt n) = Some (of_int n)"
| "num_of (VInt64 n) = Some (of_int n)"
| "num_of (VFloat r) = Some r"
| "num_of (VStr s) = None"
| "num_of VNaN = None"

text \<open>\<open>bool(x)\<close>: zero and the empty string are false, NaN is true.\<close>

fun truthy :: "cell \<Rightarrow> bool" where
  "truthy (VInt n) = (n \<noteq> 0)"
| "truthy (VInt64 n) = (n \<noteq> 0)"
| "truthy (VFloat r) = (r \<noteq> 0)"
| "truthy (VStr s) = (s \<noteq> [])"
| "truthy VNaN = True"

text \<open>\<open>pd.isna(x)\<close> and \<open>pd.notna(x)\<close> on a scalar.\<close>

fun isna :: "cell \<Rightarrow> bool" where
  "isna VNaN = True"
| "isna _ = False"

text \<open>
  Ordering comparisons: numbers compare by value, any comparison with NaN is false,
  two strings compare lexicographically, a string against a number raises TypeError.
\<close>

fun py_cmp :: "(rat \<Rightarrow> rat \<Rightarrow> bool) \<Rightarrow> (string \<Rightarrow> string \<Rightarrow> bool) \<Rightarrow> cell \<Rightarrow> cell \<Rightarrow> error + bool" where
  "py_cmp p q (VStr s) (VStr t) = Inr (q s t)"
| "py_cmp p q (VStr s) _ = Inl TypeError"
| "py_cmp p q _ (VStr t) = Inl TypeError"
| "py_cmp p q a b =
     (case (num_of a, num_of b) of (Some x, Some y) \<Rightarrow> Inr (p x y) | _ \<Rightarrow> Inr False)"

definition py_lt :: "cell \<Rightarrow> cell \<Rightarrow> error + bool" where
  "py_lt = py_cmp (<) (<)"

definition py_gt :: "cell \<Rightarrow> cell \<Rightarrow> error + bool" where
  "py_gt = py_cmp (>) (>)"

definition py_ge :: "cell \<Rightarrow> cell \<Rightarrow> error + bool" where
  "py_ge = py_cmp (\<ge>) (\<ge>)"

definition py_le :: "cell \<Rightarrow> cell \<Rightarrow> error + bool" where
  "py_le = py_cmp (\<le>) (\<le>)"

text \<open>\<open>a == b\<close> never raises: numbers by value, strings by content, otherwise false.\<close>

fun py_eq :: "cell \<Rightarrow> cell \<Rightarrow> bool" where
  "py_eq (VStr s) (VStr t) = (s = t)"
| "py_eq a b = (case (num_of a, num_of b) of (Some x, Some y) \<Rightarrow> x = y | _ \<Rightarrow> False)"

text \<open>
  Arithmetic. Two Python integers add and multiply exactly. When an int64 takes part the
  result is an int64 and wraps around; a Python integer that meets an int64 must itself
  fit into 64 bits, else numpy raises OverflowError (the Python integers that meet a
  cell in this program are its defaults and constants, all small). Any float makes the
  result a float, NaN is absorbing. Strings concatenate under \<open>+\<close> and repeat under
  \<open>*\<close> with an integer.
\<close>

definition int64_op :: "(int \<Rightarrow> int \<Rightarrow> int) \<Rightarrow> int \<Rightarrow> int \<Rightarrow> error + cell" where
  "int64_op f m n =
     (if in_int64 m \<and> in_int64 n then Inr (VInt64 (wrap64 (f m n))) else Inl OverflowError)"

fun py_add :: "cell \<Rightarrow> cell \<Rightarrow> error + cell" where
  "py_add (VInt m) (VInt n) = Inr (VInt (m + n))"
| "py_add (VInt64 m) (VInt64 n) = Inr (VInt64 (wrap64 (m + n)))"
| "py_add (VInt64 m) (VInt n) = int64_op (+) m n"
| "py_add (VInt m) (VInt64 n) = int64_op (+) m n"
| "py_add (VStr s) (VStr t) = Inr (VStr (s @ t))"
| "py_add (VStr s) _ = Inl TypeError"
| "py_add _ (VStr t) = Inl TypeError"
| "py_add a b =
     (case (num_of a, num_of b) of (Some x, Some y) \<Rightarrow> Inr (VFloat (x + y)) | _ \<Rightarrow> Inr VNaN)"

fun py_mul :: "cell \<Rightarrow> cell \<Rightarrow> error + cell" where
  "py_mul (VInt m) (VInt n) = Inr (VInt (m * n))"
| "py_mul (VInt64 m) (VInt64 n) = Inr (VInt64 (wrap64 (m * n)))"
| "py_mul (VInt64 m) (VInt n) = int64_op (*) m n"
| "py_mul (VInt m) (VInt64 n) = int64_op (*) m n"
| "py_mul (VStr s) (VInt n) = Inr (VStr (concat (replicate (nat n) s)))"
| "py_mul (VInt n) (VStr s) = Inr (VStr (concat (replicate (nat n) s)))"
| "py_mul (VStr s) (VInt64 n) = Inr (VStr (concat (replicate (nat n) s)))"
| "py_mul (VInt64 n) (VStr s) = Inr (VStr (concat (replicate (nat n) s)))"
| "py_mul (VStr s) _ = Inl TypeError"
| "py_mul _ (VStr t) = Inl TypeError"
| "py_mul a b =
     (case (num_of a, num_of b) of (Some x, Some y) \<Rightarrow> Inr (VFloat (x * y)) | _ \<Rightarrow> Inr VNaN)"

text \<open>
  True division always gives a float. A zero divisor raises ZeroDivisionError, as
  Python's numbers do (numpy's would give an infinity or NaN with a warning): every
  division of the analyser stands behind a test that its divisor is positive, or divides
  by a non-zero constant, so the case is never met.
\<close>

fun py_truediv :: "cell \<Rightarrow> cell \<Rightarrow> error + cell" where
  "py_truediv (VStr s) _ = Inl TypeError"
| "py_truediv _ (VStr t) = Inl TypeError"
| "py_truediv a b =
     (case num_of b of
        Some y \<Rightarrow>
          (if y = 0 then Inl ZeroDivisionError
           else (case num_of a of Some x \<Rightarrow> Inr (VFloat (x / y)) | None \<Rightarrow> Inr VNaN))
      | None \<Rightarrow> Inr VNaN)"

text \<open>
  Whether the sum of two numeric cells is the exact sum of their values: always for
  Python integers and floats; when an int64 takes part, only if the sum (and a Python
  integer operand) fits into 64 bits.
\<close>

fun exact_sum :: "cell \<Rightarrow> cell \<Rightarrow> bool" where
  "exact_sum (VInt64 m) (VInt64 n) = in_int64 (m + n)"
| "exact_sum (VInt64 m) (VInt n) = (in_int64 m \<and> in_int64 n \<and> in_int64 (m + n))"
| "exact_sum (VInt m) (VInt64 n) = (in_int64 m \<and> in_int64 n \<and> in_int64 (m + n))"
| "exact_sum _ _ = True"

section \<open>Tables and workbooks\<close>

text \<open>
  A sheet is a pandas DataFrame: the column names and the rows, each row holding one
  cell per column. The workbook \<open>self.sheets\<close> maps sheet names to tables.
\<close>

record dataframe =
  columns :: "string list"
  rows :: "cell list list"

type_synonym workbook = "string \<rightharpoonup> dataframe"

definition empty_frame :: dataframe where
  "empty_frame = \<lparr>columns = [], rows = []\<rparr>"

text \<open>\<open>self.sheets.get(name, pd.DataFrame())\<close>\<close>

definition sheet :: "workbook \<Rightarrow> string \<Rightarrow> dataframe" where
  "sheet wb name = (case wb name of None \<Rightarrow> empty_frame | Some df \<Rightarrow> df)"

text \<open>\<open>df.empty\<close>: no rows or no columns.\<close>

definition df_empty :: "dataframe \<Rightarrow> bool" where
  "df_empty df = (rows df = [] \<or> columns df = [])"

text \<open>\<open>row.get(col, default)\<close> for a row of a table with columns \<open>cols\<close>.\<close>

definition row_get :: "string list \<Rightarrow> cell list \<Rightarrow> string \<Rightarrow> cell \<Rightarrow> cell" where
  "row_get cols row col dflt = (case map_of (zip cols row) col of None \<Rightarrow> dflt | Some v \<Rightarrow> v)"

section \<open>Formatted text\<close>

text \<open>
  Formatted output is a list of pieces. Literal characters are kept as they are; the
  digits Python prints for a finite number are not computed but recorded by the
  conversion that was applied: \<open>str(n)\<close>, \<open>format(n, ',')\<close>, \<open>str(x)\<close>,
  \<open>format(x, ',')\<close> and \<open>format(x, '.kf')\<close>. NaN prints as the three letters nan under
  every conversion.
\<close>

datatype piece =
    Lit string
  | IntDec int
  | IntComma int
  | FloatRepr rat
  | FloatComma rat
  | FloatFixed nat rat

type_synonym rendered = "piece list"

fun py_str :: "cell \<Rightarrow> rendered" where
  "py_str (VInt n) = [IntDec n]"
| "py_str (VInt64 n) = [IntDec n]"
| "py_str (VFloat r) = [FloatRepr r]"
| "py_str (VStr s) = [Lit s]"
| "py_str VNaN = [Lit ''nan'']"

text \<open>\<open>f"{x:.kf}"\<close>: a string has no such format.\<close>

fun fmt_fixed :: "nat \<Rightarrow> cell \<Rightarrow> error + rendered" where
  "fmt_fixed k (VInt n) = Inr [FloatFixed k (of_int n)]"
| "fmt_fixed k (VInt64 n) = Inr [FloatFixed k (of_int n)]"
| "fmt_fixed k (VFloat r) = Inr [FloatFixed k r]"
| "fmt_fixed k (VStr s) = Inl ValueError"
| "fmt_fixed k VNaN = Inr [Lit ''nan'']"

text \<open>\<open>f"{x:,}"\<close>\<close>

fun fmt_comma :: "cell \<Rightarrow> error + rendered" where
  "fmt_comma (VInt n) = Inr [IntComma n]"
| "fmt_comma (VInt64 n) = Inr [IntComma n]"
| "fmt_comma (VFloat r) = Inr [FloatComma r]"
| "fmt_comma (VStr s) = Inl ValueError"
| "fmt_comma VNaN = Inr [Lit ''nan'']"


section \<open>Findings\<close>

text \<open>
  The analyser's issue strings are fixed sentences (in Russian) around formatted values.
  Each sentence is a constructor; its arguments are the formatted values in the order of
  the f-string. By source line: \<open>Low_cache_hit\<close> 79, \<open>Deadlocks_found\<close> 81,
  \<open>Temp_files_used\<close> 83, \<open>High_rollback\<close> 87, \<open>Slow_query\<close> 160, \<open>Uses_temp\<close> 162,
  \<open>Low_query_cache_hit\<close> 164, \<open>Many_dead_rows\<close> 287, \<open>Needs_analyze\<close> 291,
  \<open>Many_seq_scans\<close> 295.
\<close>

datatype finding =
    Low_cache_hit rendered
  | Deadlocks_found rendered
  | Temp_files_used rendered rendered
  | High_rollback rendered
  | Slow_query rendered
  | Uses_temp rendered
  | Low_query_cache_hit rendered
  | Many_dead_rows rendered rendered
  | Needs_analyze rendered
  | Many_seq_scans rendered

section \<open>analyze_database_stats\<close>

record db_metrics =
  d_dbname :: cell
  d_size :: cell
  d_size_delta :: cell
  d_cache_hit_ratio :: cell
  d_commits :: cell
  d_rollbacks :: cell
  d_rollback_ratio :: cell
  d_deadlocks :: cell
  d_temp_files :: cell
  d_temp_bytes :: cell
  d_issues :: "finding list"

text \<open>\<open>(rollbacks / (commits + rollbacks) * 100) if (commits + rollbacks) > 0 else 0\<close>\<close>

definition rollback_ratio_of :: "cell \<Rightarrow> cell \<Rightarrow> error + cell" where
  "rollback_ratio_of commits rollbacks =
     bindE (py_add commits rollbacks) (\<lambda>total.
     bindE (py_gt total (VInt 0)) (\<lambda>positive.
       if positive then bindE (py_truediv rollbacks total) (\<lambda>q. py_mul q (VInt 100))
       else Inr (VInt 0)))"

text \<open>\<open>x and x > 0\<close>\<close>

definition nonzero_positive :: "cell \<Rightarrow> error + bool" where
  "nonzero_positive x = (if truthy x then py_gt x (VInt 0) else Inr False)"

text \<open>The body of the loop over the rows of dbstat.\<close>

definition dbstat_row :: "string list \<Rightarrow> cell list \<Rightarrow> error + db_metrics" where
  "dbstat_row cols row =
     (let dbname = row_get cols row ''dbname'' (VStr ''Unknown'');
          cache_hit_ratio = row_get cols row ''blks_hit_pct'' (VInt 0);
          size = row_get cols row ''datsize'' (VStr ''N/A'');
          size_delta = row_get cols row ''datsize_delta'' (VStr ''N/A'');
          commits = row_get cols row ''xact_commit'' (VInt 0);
          rollbacks = row_get cols row ''xact_rollback'' (VInt 0);
          deadlocks = row_get cols row ''deadlocks'' (VInt 0);
          temp_files = row_get cols row ''temp_files'' (VInt 0);
          temp_bytes = row_get cols row ''temp_bytes'' (VInt 0)
      in
      bindE (py_lt cache_hit_ratio (VInt 95)) (\<lambda>low.
      bindE (if low then bindE (fmt_fixed 2 cache_hit_ratio) (\<lambda>t. Inr [Low_cache_hit t])
             else Inr []) (\<lambda>i1.
      bindE (nonzero_positive deadlocks) (\<lambda>dl.
      bindE (nonzero_positive temp_files) (\<lambda>tf.
      bindE (rollback_ratio_of commits rollbacks) (\<lambda>rollback_ratio.
      bindE (py_gt rollback_ratio (VInt 5)) (\<lambda>high.
      bindE (if high then bindE (fmt_fixed 2 rollback_ratio) (\<lambda>t. Inr [High_rollback t])
             else Inr []) (\<lambda>i4.
      Inr \<lparr>d_dbname = dbname, d_size = size, d_size_delta = size_delta,
           d_cache_hit_ratio = cache_hit_ratio, d_commits = commits,
           d_rollbacks = rollbacks, d_rollback_ratio = rollback_ratio,
           d_deadlocks = deadlocks, d_temp_files = temp_files, d_temp_bytes = temp_bytes,
           d_issues = i1
             @ (if dl then [Deadlocks_found (py_str deadlocks)] else [])
             @ (if tf then [Temp_files_used (py_str temp_files) (py_str temp_bytes)] else [])
             @ i4\<rparr>))))))))"

definition analyze_database_stats :: "workbook \<Rightarrow> error + db_metrics list" where
  "analyze_database_stats wb =
     (let df = sheet wb ''dbstat''
      in if df_empty df then Inr [] else mapE (dbstat_row (columns df)) (rows df))"

section \<open>analyze_indexes\<close>

record index_metrics =
  i_dbname :: cell
  i_schema :: cell
  i_table :: cell
  i_index :: cell
  i_size :: cell
  i_scans :: cell

definition index_entry :: "string list \<Rightarrow> cell list \<Rightarrow> index_metrics" where
  "index_entry cols row =
     \<lparr>i_dbname = row_get cols row ''dbname'' (VStr ''N/A''),
      i_schema = row_get cols row ''schemaname'' (VStr ''N/A''),
      i_table = row_get cols row ''relname'' (VStr ''N/A''),
      i_index = row_get cols row ''indexrelname'' (VStr ''N/A''),
      i_size = row_get cols row ''indexrelsize'' (VStr ''N/A''),
      i_scans = row_get cols row ''idx_scan'' (VInt 0)\<rparr>"

definition analyze_indexes :: "workbook \<Rightarrow> index_metrics list" where
  "analyze_indexes wb =
     (let df = sheet wb ''top_indexes''
      in if df_empty df then []
         else map (index_entry (columns df))
                (filter (\<lambda>row. py_eq (row_get (columns df) row ''idx_scan'' (VInt 0)) (VInt 0))
                   (rows df)))"

section \<open>Strings: white space, split and int\<close>

text \<open>\<open>str.isspace\<close> on the characters below 256.\<close>

definition is_space :: "char \<Rightarrow> bool" where
  "is_space c = (let n = (of_char c :: nat)
                 in (9 \<le> n \<and> n \<le> 13) \<or> (28 \<le> n \<and> n \<le> 32) \<or> n = 133 \<or> n = 160)"

text \<open>\<open>s.split()\<close>: the maximal runs of non-space characters, in order.\<close>

fun split_acc :: "string \<Rightarrow> string \<Rightarrow> string list" where
  "split_acc cur [] = (if cur = [] then [] else [cur])"
| "split_acc cur (c # cs) =
     (if is_space c then (if cur = [] then split_acc [] cs else cur # split_acc [] cs)
      else split_acc (cur @ [c]) cs)"

definition py_split :: "string \<Rightarrow> string list" where
  "py_split s = split_acc [] s"

text \<open>\<open>' '.join(words)\<close>\<close>

fun join_space :: "string list \<Rightarrow> string" where
  "join_space [] = []"
| "join_space [w] = w"
| "join_space (w # v # ws) = w @ '' '' @ join_space (v # ws)"

text \<open>
  \<open>int(x)\<close>: a float is truncated towards zero, NaN raises ValueError, and a string is
  parsed as an optionally signed decimal numeral (digits, single underscores between
  digits, surrounding white space).
\<close>

definition is_digit :: "char \<Rightarrow> bool" where
  "is_digit c = (CHR ''0'' \<le> c \<and> c \<le> CHR ''9'')"

fun int_digits :: "bool \<Rightarrow> int \<Rightarrow> string \<Rightarrow> int option" where
  "int_digits after_digit acc [] = (if after_digit then Some acc else None)"
| "int_digits after_digit acc (c # cs) =
     (if is_digit c then int_digits True (acc * 10 + (int (of_char c) - 48)) cs
      else if c = CHR ''_'' \<and> after_digit then int_digits False acc cs
      else None)"

definition strip :: "string \<Rightarrow> string" where
  "strip s = rev (dropWhile is_space (rev (dropWhile is_space s)))"

definition int_of_string :: "string \<Rightarrow> int option" where
  "int_of_string s =
     (case strip s of
        c # cs \<Rightarrow>
          (if c = CHR ''-'' then map_option uminus (int_digits False 0 cs)
           else if c = CHR ''+'' then int_digits False 0 cs
           else int_digits False 0 (c # cs))
      | [] \<Rightarrow> None)"

definition trunc :: "rat \<Rightarrow> int" where
  "trunc r = (if 0 \<le> r then \<lfloor>r\<rfloor> else \<lceil>r\<rceil>)"

fun py_int :: "cell \<Rightarrow> error + int" where
  "py_int (VInt n) = Inr n"
| "py_int (VInt64 n) = Inr n"
| "py_int (VFloat r) = Inr (trunc r)"
| "py_int (VStr s) = (case int_of_string s of None \<Rightarrow> Inl ValueError | Some n \<Rightarrow> Inr n)"
| "py_int VNaN = Inl ValueError"

text \<open>
  \<open>round(x, k)\<close>: an integer is returned unchanged and NaN stays NaN. How a float is
  rounded to \<open>k\<close> decimals is decided by the runtime in binary floating point (Python's
  own rounding for a Python float, numpy's for a float64): it is the parameter
  \<open>round_float\<close>.
\<close>

fun py_round :: "(nat \<Rightarrow> rat \<Rightarrow> rat) \<Rightarrow> nat \<Rightarrow> cell \<Rightarrow> error + cell" where
  "py_round round_float k (VInt n) = Inr (VInt n)"
| "py_round round_float k (VInt64 n) = Inr (VInt64 n)"
| "py_round round_float k (VFloat r) = Inr (VFloat (round_float k r))"
| "py_round round_float k (VStr s) = Inl TypeError"
| "py_round round_float k VNaN = Inr VNaN"

section \<open>get_report_period\<close>

text \<open>\<open>df[col]\<close> raises KeyError for an unknown column; \<open>.iloc[0]\<close> is the first row.\<close>

definition first_of_column :: "dataframe \<Rightarrow> string \<Rightarrow> error + cell" where
  "first_of_column df col =
     (if col \<in> set (columns df)
      then case rows df of [] \<Rightarrow> Inl IndexError | row # _ \<Rightarrow> Inr (row_get (columns df) row col VNaN)
      else Inl KeyError)"

text \<open>
  The period is the start, the end and the duration in minutes. \<open>None\<close> for the start
  or the end stands for the fixed text the source returns when the value is not given.
  Every exception while computing the duration is swallowed and gives 0.
\<close>

definition get_report_period :: "workbook \<Rightarrow> cell option \<times> cell option \<times> int" where
  "get_report_period wb =
     (let props = sheet wb ''Properties''
      in if df_empty props then (None, None, 0)
         else
           (let start = (if ''report_start1'' \<in> set (columns props)
                         then Some (row_get (columns props) (hd (rows props)) ''report_start1'' VNaN)
                         else None);
                finish = (if ''report_end1'' \<in> set (columns props)
                          then Some (row_get (columns props) (hd (rows props)) ''report_end1'' VNaN)
                          else None);
                duration_min =
                  (case bindE (first_of_column props ''interval_duration_sec'') (\<lambda>duration_sec.
                        bindE (py_truediv duration_sec (VInt 60)) py_int) of
                     Inl e \<Rightarrow> 0
                   | Inr n \<Rightarrow> n)
            in (start, finish, duration_min)))"

section \<open>get_query_text\<close>

text \<open>
  The rows whose hexqueryid equals the id, the text of the first of them, white space
  normalised. \<open>None\<close> is Python's None.
\<close>

definition normalize_ws :: "string \<Rightarrow> string" where
  "normalize_ws s = join_space (py_split s)"

text \<open>\<open>queries_df[queries_df['hexqueryid'] == query_id]\<close>\<close>

definition matching_rows :: "dataframe \<Rightarrow> cell \<Rightarrow> cell list list" where
  "matching_rows queries_df query_id =
     filter (\<lambda>r. py_eq (row_get (columns queries_df) r ''hexqueryid'' VNaN) query_id)
       (rows queries_df)"

definition get_query_text :: "workbook \<Rightarrow> cell \<Rightarrow> error + string option" where
  "get_query_text wb query_id =
     (let queries_df = sheet wb ''queries''; cols = columns queries_df
      in if df_empty queries_df then Inr None
         else if ''hexqueryid'' \<notin> set cols then Inl KeyError
         else
           (case matching_rows queries_df query_id of
              [] \<Rightarrow> Inr None
            | first # _ \<Rightarrow>
                (if ''query_texts'' \<notin> set cols then Inl KeyError
                 else case row_get cols first ''query_texts'' VNaN of
                        VStr query_texts \<Rightarrow>
                          (if query_texts \<noteq> [] then Inr (Some (normalize_ws query_texts))
                           else Inr None)
                      | _ \<Rightarrow> Inr None)))"

text \<open>
  \<open>query_text[:50] if query_text else 'N/A'\<close> and
  \<open>'...' if query_text and len(query_text) > 50 else ''\<close>: None and the empty string
  are both false.
\<close>

definition query_preview_of :: "string option \<Rightarrow> string" where
  "query_preview_of query_text =
     (case query_text of None \<Rightarrow> ''N/A'' | Some t \<Rightarrow> if t \<noteq> [] then take 50 t else ''N/A'')"

definition query_preview_suffix_of :: "string option \<Rightarrow> string" where
  "query_preview_suffix_of query_text =
     (case query_text of None \<Rightarrow> [] | Some t \<Rightarrow> if t \<noteq> [] \<and> 50 < length t then ''...'' else [])"

section \<open>Sorting a table\<close>

text \<open>
  \<open>df.sort_values(by=col, ascending=False)\<close> raises KeyError for an unknown column.
  The order it gives the rows is decided inside pandas, by a routine that is not part of
  the repository: it is the parameter \<open>argsort\<close>, which takes the values of the column
  and returns the positions of the rows in the order of the result (or raises, as pandas
  does on values it cannot compare).
\<close>

type_synonym sorter = "cell list \<Rightarrow> error + nat list"

text \<open>The two routines of the runtime that the model takes as parameters.\<close>

record runtime =
  rt_argsort :: sorter
  rt_round :: "nat \<Rightarrow> rat \<Rightarrow> rat"

definition select_rows :: "'a list \<Rightarrow> nat list \<Rightarrow> 'a list" where
  "select_rows xs positions = map (\<lambda>i. xs ! i) (filter (\<lambda>i. i < length xs) positions)"

definition sort_values_desc :: "sorter \<Rightarrow> string \<Rightarrow> dataframe \<Rightarrow> error + dataframe" where
  "sort_values_desc argsort col df =
     (if col \<notin> set (columns df) then Inl KeyError
      else bindE (argsort (map (\<lambda>r. row_get (columns df) r col VNaN) (rows df))) (\<lambda>positions.
             Inr (df\<lparr>rows := select_rows (rows df) positions\<rparr>)))"

section \<open>analyze_top_queries\<close>

record query_metrics =
  q_query_id :: cell
  q_query_preview :: string
  q_query_preview_suffix :: string
  q_dbname :: cell
  q_username :: cell
  q_calls :: cell
  q_total_time :: cell
  q_mean_time :: cell
  q_rows :: cell
  q_cache_ratio :: cell
  q_temp_blks :: cell
  q_issues :: "finding list"

text \<open>\<open>(shared_blks_hit / total_blks * 100) if total_blks > 0 else 100\<close>\<close>

definition query_cache_ratio_of :: "cell \<Rightarrow> cell \<Rightarrow> error + cell" where
  "query_cache_ratio_of shared_blks_hit shared_blks_read =
     bindE (py_add shared_blks_hit shared_blks_read) (\<lambda>total_blks.
     bindE (py_gt total_blks (VInt 0)) (\<lambda>positive.
       if positive then bindE (py_truediv shared_blks_hit total_blks) (\<lambda>q. py_mul q (VInt 100))
       else Inr (VInt 100)))"

text \<open>The body of the loop over the selected rows of top_statements.\<close>

definition top_query_row ::
  "workbook \<Rightarrow> string \<Rightarrow> string \<Rightarrow> string list \<Rightarrow> cell list \<Rightarrow> error + query_metrics" where
  "top_query_row wb time_col mean_col cols row =
     (let query_id = row_get cols row ''hexqueryid'' (VStr ''N/A'');
          dbname = row_get cols row ''dbname'' (VStr ''N/A'');
          username = row_get cols row ''username'' (VStr ''N/A'');
          calls = row_get cols row ''calls'' (VInt 0);
          total_time = row_get cols row time_col (VInt 0);
          mean_time = row_get cols row mean_col (VInt 0);
          rows_value = row_get cols row ''rows'' (VInt 0);
          shared_blks_hit = row_get cols row ''shared_blks_hit'' (VInt 0);
          shared_blks_read = row_get cols row ''shared_blks_read'' (VInt 0);
          temp_blks_written = row_get cols row ''temp_blks_written'' (VInt 0)
      in
      bindE (get_query_text wb query_id) (\<lambda>query_text.
      bindE (query_cache_ratio_of shared_blks_hit shared_blks_read) (\<lambda>query_cache_ratio.
      bindE (py_gt mean_time (VInt 1000)) (\<lambda>slow.
      bindE (if slow then bindE (fmt_fixed 2 mean_time) (\<lambda>t. Inr [Slow_query t])
             else Inr []) (\<lambda>i1.
      bindE (py_gt temp_blks_written (VInt 0)) (\<lambda>temp.
      bindE (py_lt query_cache_ratio (VInt 90)) (\<lambda>low.
      bindE (if low then bindE (fmt_fixed 1 query_cache_ratio) (\<lambda>t. Inr [Low_query_cache_hit t])
             else Inr []) (\<lambda>i3.
      Inr \<lparr>q_query_id = query_id,
           q_query_preview = query_preview_of query_text,
           q_query_preview_suffix = query_preview_suffix_of query_text,
           q_dbname = dbname, q_username = username, q_calls = calls,
           q_total_time = total_time, q_mean_time = mean_time, q_rows = rows_value,
           q_cache_ratio = query_cache_ratio, q_temp_blks = temp_blks_written,
           q_issues = i1 @ (if temp then [Uses_temp (py_str temp_blks_written)] else []) @ i3\<rparr>))))))))"

definition analyze_top_queries :: "sorter \<Rightarrow> workbook \<Rightarrow> nat \<Rightarrow> error + query_metrics list" where
  "analyze_top_queries argsort wb top_n =
     (let df = sheet wb ''top_statements''
      in if df_empty df then Inr []
         else
           (let time_col = (if ''total_exec_time'' \<in> set (columns df)
                            then ''total_exec_time'' else ''total_time'');
                mean_col = (if ''mean_exec_time'' \<in> set (columns df)
                            then ''mean_exec_time'' else ''mean_time'')
            in bindE (sort_values_desc argsort time_col df) (\<lambda>df_sorted.
                 mapE (top_query_row wb time_col mean_col (columns df))
                   (take top_n (rows df_sorted)))))"

section \<open>analyze_top_wal_queries\<close>

record wal_query_metrics =
  wq_query_id :: cell
  wq_query_preview :: string
  wq_query_preview_suffix :: string
  wq_dbname :: cell
  wq_calls :: cell
  wq_wal_bytes :: cell
  wq_wal_mb :: cell
  wq_wal_gb :: cell
  wq_wal_pct :: cell

text \<open>The body of the loop over the selected rows.\<close>

definition top_wal_row ::
  "runtime \<Rightarrow> workbook \<Rightarrow> string list \<Rightarrow> cell list \<Rightarrow> error + wal_query_metrics" where
  "top_wal_row rt wb cols row =
     (let query_id = row_get cols row ''hexqueryid'' (VStr ''N/A'');
          wal_bytes = row_get cols row ''wal_bytes'' (VInt 0);
          wal_bytes_pct = row_get cols row ''wal_bytes_pct'' (VInt 0)
      in
      bindE (get_query_text wb query_id) (\<lambda>query_text.
      bindE (py_truediv wal_bytes (VInt (1024 * 1024))) (\<lambda>wal_mb.
      bindE (py_gt wal_mb (VInt 1024)) (\<lambda>big.
      bindE (if big then py_truediv wal_mb (VInt 1024) else Inr (VInt 0)) (\<lambda>wal_gb.
      bindE (py_round (rt_round rt) 2 wal_mb) (\<lambda>wal_mb_rounded.
      bindE (py_gt wal_gb (VInt 0)) (\<lambda>has_gb.
      bindE (if has_gb then py_round (rt_round rt) 3 wal_gb else Inr (VInt 0)) (\<lambda>wal_gb_rounded.
      bindE (if truthy wal_bytes_pct then py_round (rt_round rt) 2 wal_bytes_pct else Inr (VInt 0)) (\<lambda>wal_pct.
      Inr \<lparr>wq_query_id = query_id,
           wq_query_preview = query_preview_of query_text,
           wq_query_preview_suffix = query_preview_suffix_of query_text,
           wq_dbname = row_get cols row ''dbname'' (VStr ''N/A''),
           wq_calls = row_get cols row ''calls'' (VInt 0),
           wq_wal_bytes = wal_bytes, wq_wal_mb = wal_mb_rounded, wq_wal_gb = wal_gb_rounded,
           wq_wal_pct = wal_pct\<rparr>)))))))))"

text \<open>
  The filter \<open>df[df['wal_bytes'].notna() & (df['wal_bytes'] > 0)]\<close> compares the whole
  column with 0 (and raises if a value cannot be compared) before any row is dropped.
\<close>

definition analyze_top_wal_queries ::
  "runtime \<Rightarrow> workbook \<Rightarrow> nat \<Rightarrow> error + wal_query_metrics list" where
  "analyze_top_wal_queries rt wb top_n =
     (let df = sheet wb ''top_statements''; cols = columns df
      in if df_empty df then Inr []
         else if ''wal_bytes'' \<notin> set cols then Inr []
         else
           bindE (mapE (\<lambda>r. py_gt (row_get cols r ''wal_bytes'' VNaN) (VInt 0)) (rows df)) (\<lambda>positive.
             (let df_wal = df\<lparr>rows := map fst (filter (\<lambda>(r, p). \<not> isna (row_get cols r ''wal_bytes'' VNaN) \<and> p)
                                             (zip (rows df) positive))\<rparr>
              in if df_empty df_wal then Inr []
                 else bindE (sort_values_desc (rt_argsort rt) ''wal_bytes'' df_wal) (\<lambda>df_sorted.
                        mapE (top_wal_row rt wb cols) (take top_n (rows df_sorted))))))"

section \<open>analyze_wal_stats\<close>

record wal_summary =
  w_records :: cell
  w_fpi :: cell
  w_bytes :: cell
  w_size_mb :: cell
  w_size_gb :: cell
  w_write_time :: cell
  w_sync_time :: cell

text \<open>The empty dict of the source is \<open>None\<close>.\<close>

definition analyze_wal_stats :: "workbook \<Rightarrow> error + wal_summary option" where
  "analyze_wal_stats wb =
     (let df = sheet wb ''wal_stats''; cols = columns df
      in if df_empty df then Inr None
         else
           (let row = hd (rows df);
                wal_bytes = row_get cols row ''wal_bytes'' (VInt 0)
            in bindE (if truthy wal_bytes then py_truediv wal_bytes (VInt (1024 * 1024))
                      else Inr (VInt 0)) (\<lambda>wal_mb.
               bindE (py_truediv wal_mb (VInt 1024)) (\<lambda>wal_gb.
               Inr (Some \<lparr>w_records = row_get cols row ''wal_records'' (VInt 0),
                          w_fpi = row_get cols row ''wal_fpi'' (VInt 0),
                          w_bytes = wal_bytes, w_size_mb = wal_mb, w_size_gb = wal_gb,
                          w_write_time = row_get cols row ''wal_write_time'' (VInt 0),
                          w_sync_time = row_get cols row ''wal_sync_time'' (VInt 0)\<rparr>)))))"

section \<open>analyze_tables\<close>

record table_metrics =
  t_dbname :: cell
  t_schema :: cell
  t_table :: cell
  t_size :: cell
  t_live_tuples :: cell
  t_dead_tuples :: cell
  t_seq_scan :: cell
  t_idx_scan :: cell
  t_mod_since_analyze :: cell
  t_issues :: "finding list"

text \<open>\<open>a > b * 0.2\<close>\<close>

definition exceeds_fifth :: "cell \<Rightarrow> cell \<Rightarrow> error + bool" where
  "exceeds_fifth a b = bindE (py_mul b (VFloat (2 / 10))) (\<lambda>limit. py_gt a limit)"

text \<open>The body of the loop over top_tables; \<open>None\<close> for a table without issues.\<close>

definition table_row :: "string list \<Rightarrow> cell list \<Rightarrow> error + table_metrics option" where
  "table_row cols row =
     (let n_live_tup = row_get cols row ''n_live_tup'' (VInt 0);
          n_dead_tup = row_get cols row ''n_dead_tup'' (VInt 0);
          n_mod_since_analyze = row_get cols row ''n_mod_since_analyze'' (VInt 0);
          seq_scan = row_get cols row ''seq_scan'' (VInt 0)
      in
      bindE (py_gt n_live_tup (VInt 0)) (\<lambda>live.
      bindE (if live then
               bindE (py_truediv n_dead_tup n_live_tup) (\<lambda>q.
               bindE (py_mul q (VInt 100)) (\<lambda>dead_ratio.
               bindE (py_gt dead_ratio (VInt 20)) (\<lambda>bloated.
                 if bloated then
                   bindE (fmt_fixed 1 dead_ratio) (\<lambda>t1.
                   bindE (fmt_comma n_dead_tup) (\<lambda>t2. Inr [Many_dead_rows t1 t2]))
                 else Inr [])))
             else Inr []) (\<lambda>i1.
      bindE (if live then exceeds_fifth n_mod_since_analyze n_live_tup else Inr False) (\<lambda>stale.
      bindE (if stale then bindE (fmt_comma n_mod_since_analyze) (\<lambda>t. Inr [Needs_analyze t])
             else Inr []) (\<lambda>i2.
      bindE (py_gt seq_scan (VInt 100)) (\<lambda>scanned.
      bindE (if scanned then py_gt n_live_tup (VInt 10000) else Inr False) (\<lambda>large.
        (let issues = i1 @ i2 @ (if large then [Many_seq_scans (py_str seq_scan)] else [])
         in if issues \<noteq> [] then
              Inr (Some \<lparr>t_dbname = row_get cols row ''dbname'' (VStr ''N/A''),
                         t_schema = row_get cols row ''schemaname'' (VStr ''N/A''),
                         t_table = row_get cols row ''relname'' (VStr ''N/A''),
                         t_size = row_get cols row ''relsize'' (VStr ''N/A''),
                         t_live_tuples = n_live_tup, t_dead_tuples = n_dead_tup,
                         t_seq_scan = seq_scan,
                         t_idx_scan = row_get cols row ''idx_scan'' (VInt 0),
                         t_mod_since_analyze = n_mod_since_analyze,
                         t_issues = issues\<rparr>)
            else Inr None))))))))"

text \<open>
  \<open>sorted(results, key=lambda x: len(x['issues']), reverse=True)[:top_n]\<close>: Python's
  sort is stable, also when reversed.
\<close>

fun insert_by_issues :: "table_metrics \<Rightarrow> table_metrics list \<Rightarrow> table_metrics list" where
  "insert_by_issues x [] = [x]"
| "insert_by_issues x (y # ys) =
     (if length (t_issues y) < length (t_issues x) then x # y # ys
      else y # insert_by_issues x ys)"

definition sorted_by_issues :: "table_metrics list \<Rightarrow> table_metrics list" where
  "sorted_by_issues xs = foldl (\<lambda>acc x. insert_by_issues x acc) [] xs"

definition analyze_tables :: "workbook \<Rightarrow> nat \<Rightarrow> error + table_metrics list" where
  "analyze_tables wb top_n =
     (let df = sheet wb ''top_tables''
      in if df_empty df then Inr []
         else bindE (mapE (table_row (columns df)) (rows df)) (\<lambda>results.
                Inr (take top_n (sorted_by_issues (concat (map (\<lambda>r. case r of None \<Rightarrow> [] | Some m \<Rightarrow> [m]) results))))))"

section \<open>generate_markdown_report\<close>

text \<open>
  The report is the sequence of the \<open>f.write\<close> calls. The fixed text of the report is
  in Russian; every distinct fixed piece is a constructor (a section heading, a fixed
  line, the label of a table row), and the values formatted into a line are its
  arguments. The two time stamps taken from the clock are not modelled. An exception
  anywhere gives \<open>Inl\<close>; the part of the file written before it is not modelled.
\<close>

text \<open>
  Headings, by source line: \<open>Title\<close> 351, \<open>H_period\<close> 355, \<open>H_databases\<close> 363,
  \<open>H_wal\<close> 398, \<open>H_top_wal\<close> 424, \<open>H_top_queries\<close> 444, \<open>H_tables\<close> 501,
  \<open>H_indexes\<close> 534, \<open>H_summary\<close> 552, \<open>H_good\<close> 554, \<open>H_critical\<close> 569,
  \<open>H_recommendations\<close> 584, \<open>H_info\<close> 614.
\<close>

datatype heading =
    Title | H_period | H_databases | H_wal | H_top_wal | H_top_queries | H_tables
  | H_indexes | H_summary | H_good | H_critical | H_recommendations | H_info

text \<open>
  Fixed lines, by source line: \<open>Analysis_date\<close> 352, \<open>Rule\<close> 360 (and 395, 441, 495,
  530, 549), \<open>Rule_after_list\<close> 611, \<open>Blank\<close> a single newline (391, 439, 470, 476, 493,
  518, 528), \<open>Blank2\<close> 437, \<open>Metric_table_head\<close> and \<open>Metric_table_sep\<close> 367 and 368
  (also 401 and 402), \<open>Param_table_head\<close> and \<open>Param_table_sep\<close> 452 and 453 (also 505
  and 506), \<open>Db_issues_head\<close> 388, \<open>Db_no_issues\<close> 393, \<open>Wal_high\<close> 414,
  \<open>Wal_moderate\<close> 416, \<open>Wal_normal\<close> 418, \<open>Wal_unavailable\<close> 420 (the placeholder
  "data unavailable"), \<open>Top_wal_note\<close> 425, \<open>Problems_head\<close> 473 (also 515),
  \<open>Query_ok\<close> 478, \<open>Advice_head\<close> 490 (also 521), \<open>Queries_unavailable\<close> 497 (the
  placeholder "query data unavailable"), \<open>Advise_index\<close> 527, \<open>Indexes_note\<close> 535,
  \<open>Index_table_head\<close> and \<open>Index_table_sep\<close> 537 and 538, \<open>Index_advice\<close> 543,
  \<open>Sql_open\<close> 544, \<open>Sql_comment\<close> 545, \<open>Sql_close\<close> 548, \<open>No_critical\<close> 579,
  \<open>Info_source\<close> 615, \<open>Info_tools\<close> 616, \<open>Info_method\<close> 617, \<open>Info_method_cont\<close> 618,
  \<open>Info_generated\<close> 619.
\<close>

datatype fixed_line =
    Analysis_date | Rule | Rule_after_list | Blank | Blank2
  | Metric_table_head | Metric_table_sep | Param_table_head | Param_table_sep
  | Db_issues_head | Db_no_issues
  | Wal_high | Wal_moderate | Wal_normal | Wal_unavailable | Top_wal_note
  | Problems_head | Query_ok | Advice_head | Queries_unavailable | Advise_index
  | Indexes_note | Index_table_head | Index_table_sep | Index_advice
  | Sql_open | Sql_comment | Sql_close | No_critical
  | Info_source | Info_tools | Info_method | Info_method_cont | Info_generated

text \<open>
  Labels of the two-column table rows \<open>| **label** | value |\<close>: lines 379 to 385 for a
  database, 403 to 407 for WAL, 454 to 468 for a query, 507 to 513 for a table.
\<close>

datatype label =
    Db_size | Db_size_delta | Db_cache_hit | Db_commits | Db_rollbacks | Db_deadlocks
  | Db_temp_files
  | Wal_records | Wal_fpi | Wal_size | Wal_write_time | Wal_sync_time
  | Q_db | Q_user | Q_calls | Q_total_time | Q_mean_time | Q_rows | Q_cache_hit | Q_temp_blks
  | T_db | T_size | T_live | T_dead | T_seq_scan | T_idx_scan | T_mod

text \<open>
  Recommendations: per query \<open>Optimize_query\<close> 483, \<open>Raise_work_mem\<close> 485,
  \<open>Check_indexes\<close> 487; in the summary \<open>Increase_work_mem\<close> 591,
  \<open>Consider_shared_buffers\<close> 593, \<open>Tune_autovacuum\<close> 596, \<open>Drop_unused_indexes\<close> 599,
  \<open>Optimize_slow_queries\<close> 603, \<open>Well_tuned\<close> 606. Good things: lines 559, 561 and 564;
  critical problems: lines 574 and 576.
\<close>

datatype advice =
    Optimize_query | Raise_work_mem | Check_indexes
  | Increase_work_mem | Consider_shared_buffers rendered | Tune_autovacuum
  | Drop_unused_indexes nat | Optimize_slow_queries nat | Well_tuned

datatype good_thing = Good_cache_hit rendered rendered | No_deadlocks rendered | Stable

datatype critical = Very_low_cache_hit rendered rendered | Critical_deadlocks rendered rendered

text \<open>
  The written lines. Besides headings, fixed lines and table rows: the period lines
  356 to 358, the database title 366, a bullet with a finding (390, 475, 517), the WAL
  rate 411, the lines of a top WAL query 428 to 435, the note 447, a query's title and
  preview 450 and 451, a bullet with a recommendation 492, a table's title 504, the
  VACUUM and ANALYZE commands 523 and 525, a row of the index table 541, a DROP INDEX
  command 547, and the items of the summary 567, 582 and 609.
\<close>

datatype chunk =
    Heading heading
  | Fixed fixed_line
  | Row label rendered
  | Period_start "rendered option"
  | Period_end "rendered option"
  | Period_duration int
  | Db_title rendered
  | Bullet finding
  | Wal_rate rendered
  | Wal_query_title nat rendered
  | Wal_query_preview rendered
  | Wal_query_db rendered
  | Wal_query_calls rendered
  | Wal_query_volume rendered
  | Wal_query_share rendered
  | Queries_note nat
  | Query_title nat rendered
  | Query_preview rendered
  | Advice advice
  | Table_title nat rendered rendered
  | Advise_vacuum rendered rendered
  | Advise_analyze rendered rendered
  | Index_row rendered rendered rendered rendered rendered
  | Drop_index rendered rendered
  | Good good_thing
  | Critical critical
  | Numbered nat advice

text \<open>\<open>enumerate(xs, 1)\<close>\<close>

definition enumerate1 :: "'a list \<Rightarrow> (nat \<times> 'a) list" where
  "enumerate1 xs = zip [1..<Suc (length xs)] xs"

definition concatE :: "('a \<Rightarrow> error + 'b list) \<Rightarrow> 'a list \<Rightarrow> error + 'b list" where
  "concatE f xs = bindE (mapE f xs) (\<lambda>ys. Inr (concat ys))"

subsection \<open>The databases section (the loop of lines 365 to 393)\<close>

text \<open>\<open>f"{int(x):,}" if pd.notna(x) else ''\<close>\<close>

definition int_comma_or_blank :: "cell \<Rightarrow> error + rendered" where
  "int_comma_or_blank x = (if \<not> isna x then bindE (py_int x) (\<lambda>n. Inr [IntComma n]) else Inr [])"

text \<open>\<open>'' if pd.isna(x) or x == 0 else str(int(x))\<close>\<close>

definition int_or_blank :: "cell \<Rightarrow> error + rendered" where
  "int_or_blank x =
     (if isna x \<or> py_eq x (VInt 0) then Inr [] else bindE (py_int x) (\<lambda>n. Inr [IntDec n]))"

text \<open>\<open>'' if pd.isna(x) else str(x)\<close>\<close>

definition str_or_blank :: "cell \<Rightarrow> rendered" where
  "str_or_blank x = (if isna x then [] else py_str x)"

definition report_database :: "db_metrics \<Rightarrow> error + chunk list" where
  "report_database db =
     (let size_str = str_or_blank (d_size db);
          size_delta_str = str_or_blank (d_size_delta db)
      in
      bindE (int_comma_or_blank (d_commits db)) (\<lambda>commits_str.
      bindE (int_comma_or_blank (d_rollbacks db)) (\<lambda>rollbacks_str.
      bindE (if \<not> isna (d_rollback_ratio db) \<and> rollbacks_str \<noteq> []
             then bindE (fmt_fixed 2 (d_rollback_ratio db)) (\<lambda>t. Inr ([Lit ''(''] @ t @ [Lit ''%)'']))
             else Inr []) (\<lambda>rollback_ratio_str.
      bindE (int_or_blank (d_deadlocks db)) (\<lambda>deadlocks_str.
      bindE (int_or_blank (d_temp_files db)) (\<lambda>temp_files_str.
      bindE (fmt_fixed 2 (d_cache_hit_ratio db)) (\<lambda>cache_hit.
      Inr ([Db_title (py_str (d_dbname db)), Fixed Metric_table_head, Fixed Metric_table_sep,
            Row Db_size size_str,
            Row Db_size_delta size_delta_str,
            Row Db_cache_hit (cache_hit @ [Lit ''%'']),
            Row Db_commits commits_str,
            Row Db_rollbacks (rollbacks_str @ [Lit '' ''] @ rollback_ratio_str),
            Row Db_deadlocks deadlocks_str,
            Row Db_temp_files temp_files_str]
           @ (if d_issues db \<noteq> []
              then [Fixed Db_issues_head] @ map Bullet (d_issues db) @ [Fixed Blank]
              else [Fixed Db_no_issues])))))))))"

subsection \<open>The WAL section (lines 400 to 420)\<close>

text \<open>\<open>wal_stats['size_mb'] / duration if duration > 0 else 0\<close>\<close>

definition wal_per_min_of :: "cell \<Rightarrow> int \<Rightarrow> error + cell" where
  "wal_per_min_of size_mb duration =
     (if 0 < duration then py_truediv size_mb (VInt duration) else Inr (VInt 0))"

text \<open>The \<open>if\<close> / \<open>elif\<close> / \<open>else\<close> of lines 413 to 418.\<close>

definition wal_activity :: "cell \<Rightarrow> error + fixed_line" where
  "wal_activity wal_per_min =
     bindE (py_gt wal_per_min (VInt 100)) (\<lambda>high.
       if high then Inr Wal_high
       else bindE (py_gt wal_per_min (VInt 50)) (\<lambda>moderate.
              if moderate then Inr Wal_moderate else Inr Wal_normal))"

definition report_wal :: "wal_summary option \<Rightarrow> int \<Rightarrow> error + chunk list" where
  "report_wal wal_stats duration =
     (case wal_stats of
        None \<Rightarrow> Inr [Fixed Wal_unavailable]
      | Some ws \<Rightarrow>
          bindE (fmt_comma (w_records ws)) (\<lambda>records.
          bindE (fmt_comma (w_fpi ws)) (\<lambda>fpi.
          bindE (fmt_fixed 2 (w_size_mb ws)) (\<lambda>mb.
          bindE (fmt_fixed 3 (w_size_gb ws)) (\<lambda>gb.
          bindE (fmt_fixed 2 (w_write_time ws)) (\<lambda>write_time.
          bindE (fmt_fixed 2 (w_sync_time ws)) (\<lambda>sync_time.
          bindE (wal_per_min_of (w_size_mb ws) duration) (\<lambda>wal_per_min.
          bindE (fmt_fixed 2 wal_per_min) (\<lambda>rate.
          bindE (wal_activity wal_per_min) (\<lambda>activity.
          Inr [Fixed Metric_table_head, Fixed Metric_table_sep,
               Row Wal_records records,
               Row Wal_fpi fpi,
               Row Wal_size (mb @ [Lit '' MB (''] @ gb @ [Lit '' GB)'']),
               Row Wal_write_time write_time,
               Row Wal_sync_time sync_time,
               Wal_rate rate,
               Fixed activity]))))))))))"

subsection \<open>The top WAL queries (lines 423 to 439)\<close>

definition report_wal_query :: "nat \<times> wal_query_metrics \<Rightarrow> error + chunk list" where
  "report_wal_query iq =
     (let i = fst iq; query = snd iq
      in
      bindE (fmt_comma (wq_calls query)) (\<lambda>calls.
      bindE (fmt_fixed 2 (wq_wal_mb query)) (\<lambda>mb.
      bindE (py_gt (wq_wal_pct query) (VInt 0)) (\<lambda>has_share.
      bindE (if has_share then bindE (fmt_fixed 1 (wq_wal_pct query)) (\<lambda>t. Inr [Wal_query_share t])
             else Inr []) (\<lambda>share.
      Inr ([Wal_query_title i (py_str (wq_query_id query)),
            Wal_query_preview [Lit (wq_query_preview query), Lit (wq_query_preview_suffix query)],
            Wal_query_db (py_str (wq_dbname query)),
            Wal_query_calls calls,
            Wal_query_volume mb]
           @ share @ [Fixed Blank2]))))))"

definition report_top_wal :: "wal_query_metrics list \<Rightarrow> error + chunk list" where
  "report_top_wal top_wal_queries =
     (if top_wal_queries \<noteq> [] then
        bindE (concatE report_wal_query (enumerate1 top_wal_queries)) (\<lambda>body.
          Inr ([Heading H_top_wal, Fixed Top_wal_note] @ body @ [Fixed Blank]))
      else Inr [])"

subsection \<open>The top queries (lines 446 to 497)\<close>

definition report_query :: "nat \<times> query_metrics \<Rightarrow> error + chunk list" where
  "report_query iq =
     (let i = fst iq; query = snd iq
      in
      bindE (fmt_comma (q_calls query)) (\<lambda>calls.
      bindE (py_mul (q_total_time query) (VInt 1000)) (\<lambda>total_ms.
      bindE (fmt_fixed 0 total_ms) (\<lambda>total_time.
      bindE (fmt_fixed 2 (q_mean_time query)) (\<lambda>mean_time.
      bindE (if \<not> isna (q_rows query) then py_gt (q_rows query) (VInt 0) else Inr False) (\<lambda>has_rows.
      bindE (if has_rows then bindE (py_int (q_rows query)) (\<lambda>n. Inr [IntComma n]) else Inr []) (\<lambda>rows_str.
      bindE (fmt_fixed 1 (q_cache_ratio query)) (\<lambda>cache_ratio.
      bindE (py_gt (q_temp_blks query) (VInt 0)) (\<lambda>temp.
      bindE (if temp then bindE (fmt_comma (q_temp_blks query)) (\<lambda>t. Inr [Row Q_temp_blks t])
             else Inr []) (\<lambda>temp_row.
      bindE (py_gt (q_mean_time query) (VInt 1000)) (\<lambda>slow.
      bindE (py_gt (q_temp_blks query) (VInt 0)) (\<lambda>temp_again.
      bindE (py_lt (q_cache_ratio query) (VInt 90)) (\<lambda>low.
        (let recommendations = (if slow then [Optimize_query] else [])
               @ (if temp_again then [Raise_work_mem] else [])
               @ (if low then [Check_indexes] else [])
         in Inr ([Query_title i (py_str (q_query_id query)),
                  Query_preview [Lit (q_query_preview query), Lit (q_query_preview_suffix query)],
                  Fixed Param_table_head, Fixed Param_table_sep,
                  Row Q_db (py_str (q_dbname query)),
                  Row Q_user (py_str (q_username query)),
                  Row Q_calls calls,
                  Row Q_total_time total_time,
                  Row Q_mean_time mean_time,
                  Row Q_rows rows_str,
                  Row Q_cache_hit (cache_ratio @ [Lit ''%''])]
                 @ temp_row @ [Fixed Blank]
                 @ (if q_issues query \<noteq> []
                    then [Fixed Problems_head] @ map Bullet (q_issues query) @ [Fixed Blank]
                    else [Fixed Query_ok])
                 @ (if recommendations \<noteq> []
                    then [Fixed Advice_head] @ map Advice recommendations @ [Fixed Blank]
                    else [])
                 @ [Fixed Rule])))))))))))))))"

definition report_top_queries :: "query_metrics list \<Rightarrow> error + chunk list" where
  "report_top_queries top_queries =
     (if top_queries \<noteq> [] then
        bindE (concatE report_query (enumerate1 top_queries)) (\<lambda>body.
          Inr ([Queries_note (length top_queries)] @ body))
      else Inr [Fixed Queries_unavailable])"

subsection \<open>The problem tables (lines 500 to 530)\<close>

definition report_table :: "nat \<times> table_metrics \<Rightarrow> error + chunk list" where
  "report_table it =
     (let i = fst it; table = snd it;
          schema = py_str (t_schema table); name = py_str (t_table table)
      in
      bindE (fmt_comma (t_live_tuples table)) (\<lambda>live.
      bindE (fmt_comma (t_dead_tuples table)) (\<lambda>dead.
      bindE (fmt_comma (t_seq_scan table)) (\<lambda>seq_scan.
      bindE (fmt_comma (t_idx_scan table)) (\<lambda>idx_scan.
      bindE (fmt_comma (t_mod_since_analyze table)) (\<lambda>modified.
      bindE (exceeds_fifth (t_dead_tuples table) (t_live_tuples table)) (\<lambda>vacuum.
      bindE (exceeds_fifth (t_mod_since_analyze table) (t_live_tuples table)) (\<lambda>analyze.
      bindE (py_gt (t_seq_scan table) (VInt 100)) (\<lambda>scanned.
      bindE (if scanned then py_gt (t_live_tuples table) (VInt 10000) else Inr False) (\<lambda>large.
      Inr ([Table_title i schema name, Fixed Param_table_head, Fixed Param_table_sep,
            Row T_db (py_str (t_dbname table)),
            Row T_size (py_str (t_size table)),
            Row T_live live,
            Row T_dead dead,
            Row T_seq_scan seq_scan,
            Row T_idx_scan idx_scan,
            Row T_mod modified,
            Fixed Problems_head]
           @ map Bullet (t_issues table)
           @ [Fixed Blank, Fixed Advice_head]
           @ (if vacuum then [Advise_vacuum schema name] else [])
           @ (if analyze then [Advise_analyze schema name] else [])
           @ (if large then [Fixed Advise_index] else [])
           @ [Fixed Blank, Fixed Rule])))))))))))"

definition report_tables :: "table_metrics list \<Rightarrow> error + chunk list" where
  "report_tables problem_tables =
     (if problem_tables \<noteq> [] then
        bindE (concatE report_table (enumerate1 problem_tables)) (\<lambda>body.
          Inr ([Heading H_tables] @ body))
      else Inr [])"

subsection \<open>The unused indexes (lines 533 to 549)\<close>

definition report_indexes :: "index_metrics list \<Rightarrow> chunk list" where
  "report_indexes unused_indexes =
     (if unused_indexes \<noteq> [] then
        [Heading H_indexes, Fixed Indexes_note, Fixed Index_table_head, Fixed Index_table_sep]
        @ map (\<lambda>idx. Index_row (py_str (i_dbname idx)) (py_str (i_schema idx))
                        (py_str (i_table idx)) (py_str (i_index idx)) (py_str (i_size idx)))
            (take 10 unused_indexes)
        @ [Fixed Index_advice, Fixed Sql_open, Fixed Sql_comment]
        @ map (\<lambda>idx. Drop_index (py_str (i_schema idx)) (py_str (i_index idx)))
            (take 3 unused_indexes)
        @ [Fixed Sql_close, Fixed Rule]
      else [])"

subsection \<open>The summary (lines 552 to 611)\<close>

definition good_things_of :: "db_metrics \<Rightarrow> error + good_thing list" where
  "good_things_of db =
     bindE (py_ge (d_cache_hit_ratio db) (VInt 95)) (\<lambda>good.
     bindE (if good then bindE (fmt_fixed 2 (d_cache_hit_ratio db)) (\<lambda>t.
                           Inr [Good_cache_hit (py_str (d_dbname db)) t])
            else Inr []) (\<lambda>g1.
     Inr (g1 @ (if py_eq (d_deadlocks db) (VInt 0) then [No_deadlocks (py_str (d_dbname db))]
                else []))))"

definition critical_of :: "db_metrics \<Rightarrow> error + critical list" where
  "critical_of db =
     bindE (py_lt (d_cache_hit_ratio db) (VInt 90)) (\<lambda>very_low.
     bindE (if very_low then bindE (fmt_fixed 2 (d_cache_hit_ratio db)) (\<lambda>t.
                               Inr [Very_low_cache_hit (py_str (d_dbname db)) t])
            else Inr []) (\<lambda>c1.
     bindE (nonzero_positive (d_deadlocks db)) (\<lambda>dl.
     Inr (c1 @ (if dl then [Critical_deadlocks (py_str (d_dbname db)) (py_str (d_deadlocks db))]
                else [])))))"

text \<open>\<open>90 <= x < 95\<close>\<close>

definition between_90_95 :: "cell \<Rightarrow> error + bool" where
  "between_90_95 x =
     bindE (py_le (VInt 90) x) (\<lambda>lower. if lower then py_lt x (VInt 95) else Inr False)"

definition db_advice_of :: "db_metrics \<Rightarrow> error + advice list" where
  "db_advice_of db =
     bindE (nonzero_positive (d_temp_files db)) (\<lambda>tf.
     bindE (between_90_95 (d_cache_hit_ratio db)) (\<lambda>mid.
     bindE (if mid then bindE (fmt_fixed 2 (d_cache_hit_ratio db)) (\<lambda>t.
                          Inr [Consider_shared_buffers t])
            else Inr []) (\<lambda>a2.
     Inr ((if tf then [Increase_work_mem] else []) @ a2))))"

definition report_summary ::
  "db_metrics list \<Rightarrow> query_metrics list \<Rightarrow> table_metrics list \<Rightarrow> index_metrics list
     \<Rightarrow> error + chunk list" where
  "report_summary db_stats top_queries problem_tables unused_indexes =
     bindE (concatE good_things_of db_stats) (\<lambda>found_good.
       (let good_things = (if found_good = [] then [Stable] else found_good)
        in
        bindE (concatE critical_of db_stats) (\<lambda>critical.
        bindE (concatE db_advice_of db_stats) (\<lambda>db_advice.
        bindE (mapE (\<lambda>q. py_gt (q_mean_time q) (VInt 1000)) top_queries) (\<lambda>heavy.
          (let heavy_queries = filter (\<lambda>h. h) heavy;
               found_advice = db_advice
                 @ (if problem_tables \<noteq> [] then [Tune_autovacuum] else [])
                 @ (if unused_indexes \<noteq> [] then [Drop_unused_indexes (length unused_indexes)] else [])
                 @ (if heavy_queries \<noteq> [] then [Optimize_slow_queries (length heavy_queries)] else []);
               recommendations = (if found_advice = [] then [Well_tuned] else found_advice)
           in Inr ([Heading H_summary, Heading H_good]
                   @ map Good good_things
                   @ [Heading H_critical]
                   @ (if critical = [] then [Fixed No_critical] else map Critical critical)
                   @ [Heading H_recommendations]
                   @ map (\<lambda>(i, advice). Numbered i advice) (enumerate1 recommendations)
                   @ [Fixed Rule_after_list])))))))"

subsection \<open>The whole report\<close>

text \<open>
  The analyses run first, in the order of lines 341 to 347, then the sections are
  written in their fixed order. The top-N sizes 10, 5 and 10 are those of the source.
\<close>

definition generate_markdown_report :: "runtime \<Rightarrow> workbook \<Rightarrow> error + chunk list" where
  "generate_markdown_report rt wb =
     (let period = get_report_period wb;
          start = fst period; finish = fst (snd period); duration = snd (snd period)
      in
      bindE (analyze_database_stats wb) (\<lambda>db_stats.
      bindE (analyze_top_queries (rt_argsort rt) wb 10) (\<lambda>top_queries.
      bindE (analyze_wal_stats wb) (\<lambda>wal_stats.
      bindE (analyze_top_wal_queries rt wb 5) (\<lambda>top_wal_queries.
      bindE (analyze_tables wb 10) (\<lambda>problem_tables.
        (let unused_indexes = analyze_indexes wb
         in
         bindE (concatE report_database db_stats) (\<lambda>databases.
         bindE (report_wal wal_stats duration) (\<lambda>wal.
         bindE (report_top_wal top_wal_queries) (\<lambda>top_wal.
         bindE (report_top_queries top_queries) (\<lambda>queries.
         bindE (report_tables problem_tables) (\<lambda>tables.
         bindE (report_summary db_stats top_queries problem_tables unused_indexes) (\<lambda>summary.
         Inr ([Heading Title, Fixed Analysis_date,
               Heading H_period,
               Period_start (map_option py_str start),
               Period_end (map_option py_str finish),
               Period_duration duration,
               Fixed Rule,
               Heading H_databases]
              @ databases
              @ [Fixed Rule, Heading H_wal]
              @ wal @ top_wal
              @ [Fixed Rule, Heading H_top_queries]
              @ queries @ tables @ report_indexes unused_indexes @ summary
              @ [Heading H_info, Fixed Info_source, Fixed Info_tools, Fixed Info_method,
                 Fixed Info_method_cont, Fixed Info_generated]))))))))))))))"


subsection \<open>Reading the WAL classification off a report\<close>

text \<open>The three lines of which lines 413 to 418 write one.\<close>

fun is_wal_activity :: "chunk \<Rightarrow> bool" where
  "is_wal_activity (Fixed Wal_high) = True"
| "is_wal_activity (Fixed Wal_moderate) = True"
| "is_wal_activity (Fixed Wal_normal) = True"
| "is_wal_activity _ = False"

text \<open>The classification of a generation rate in MB per minute, as the specification
  words it: above 100 high, above 50 and at most 100 moderate, otherwise normal.\<close>

definition classify_rate :: "rat \<Rightarrow> fixed_line" where
  "classify_rate rate =
     (if 100 < rate then Wal_high
      else if 50 < rate \<and> rate \<le> 100 then Wal_moderate
      else Wal_normal)"

section \<open>extract_data_from_html: locating the JSON span\<close>






subsection \<open>Well-formed JSON text\<close>














section \<open>Example inputs\<close>

definition dbstat_example :: workbook where
  "dbstat_example = [''dbstat'' \<mapsto>
     \<lparr>columns = [''dbname'', ''blks_hit_pct'', ''xact_commit'', ''xact_rollback''],
      rows = [[VStr ''app'', VFloat 99, VInt 0, VInt 0],
              [VStr ''log'', VFloat 97, VInt 30, VInt 10]]\<rparr>]"

definition index_example :: workbook where
  "index_example = [''top_indexes'' \<mapsto>
     \<lparr>columns = [''schemaname'', ''indexrelname''],
      rows = [[VStr ''public'', VStr ''orders_pkey''],
              [VStr ''public'', VStr ''orders_created_idx'']]\<rparr>]"

definition properties_only :: workbook where
  "properties_only = [''Properties'' \<mapsto>
     \<lparr>columns = [''report_start1'', ''report_end1'', ''interval_duration_sec''],
      rows = [[VStr ''2024-01-01 10:00:00'', VStr ''2024-01-01 11:00:00'', VInt 3600]]\<rparr>]"

text \<open>
  A runtime for the examples: the sort leaves the rows in their order, and a float is
  rounded on its exact value, ties to even.
\<close>

definition keep_order :: sorter where
  "keep_order keys = Inr [0..<length keys]"

definition round_half_even :: "rat \<Rightarrow> int" where
  "round_half_even x =
     (let f = \<lfloor>x\<rfloor>; d = x - of_int f
      in if d < 1 / 2 then f else if 1 / 2 < d then f + 1 else if even f then f else f + 1)"

definition example_runtime :: runtime where
  "example_runtime =
     \<lparr>rt_argsort = keep_order,
      rt_round = (\<lambda>k r. of_int (round_half_even (r * 10 ^ k)) / 10 ^ k)\<rparr>"




definition no_time_columns :: workbook where
  "no_time_columns = [''top_statements'' \<mapsto>
     \<lparr>columns = [''hexqueryid'', ''calls''],
      rows = [[VStr ''a1'', VInt 7]]\<rparr>]"

definition no_hexqueryid :: workbook where
  "no_hexqueryid =
     [''top_statements'' \<mapsto>
        \<lparr>columns = [''hexqueryid'', ''total_exec_time''],
         rows = [[VStr ''a1'', VFloat (3 / 2)]]\<rparr>,
      ''queries'' \<mapsto>
        \<lparr>columns = [''query_texts''],
         rows = [[VStr ''select 1'']]\<rparr>]"

definition nan_example :: workbook where
  "nan_example =
     [''dbstat'' \<mapsto>
        \<lparr>columns = [''dbname'', ''blks_hit_pct'', ''xact_commit'', ''xact_rollback''],
         rows = [[VStr ''app'', VNaN, VInt 10, VInt 0]]\<rparr>,
      ''top_statements'' \<mapsto>
        \<lparr>columns = [''hexqueryid'', ''total_exec_time'', ''mean_exec_time'', ''calls''],
         rows = [[VStr ''a1'', VFloat (3 / 2), VNaN, VNaN]]\<rparr>]"

text \<open>The report expected for \<open>nan_example\<close>.\<close>

definition nan_example_report :: "chunk list" where
  "nan_example_report =
     [Heading Title, Fixed Analysis_date, Heading H_period,
      Period_start None, Period_end None, Period_duration 0, Fixed Rule,
      Heading H_databases, Db_title [Lit ''app''], Fixed Metric_table_head,
      Fixed Metric_table_sep, Row Db_size [Lit ''N/A''],
      Row Db_size_delta [Lit ''N/A''],
      Row Db_cache_hit [Lit ''nan'', Lit ''%''],
      Row Db_commits [IntComma 10],
      Row Db_rollbacks [IntComma 0, Lit '' '', Lit ''('', FloatFixed 2 0, Lit ''%)''],
      Row Db_deadlocks [], Row Db_temp_files [], Fixed Db_no_issues,
      Fixed Rule, Heading H_wal, Fixed Wal_unavailable, Fixed Rule,
      Heading H_top_queries, Queries_note 1, Query_title 1 [Lit ''a1''],
      Query_preview [Lit ''N/A'', Lit []], Fixed Param_table_head,
      Fixed Param_table_sep, Row Q_db [Lit ''N/A''],
      Row Q_user [Lit ''N/A''], Row Q_calls [Lit ''nan''],
      Row Q_total_time [FloatFixed 0 1500], Row Q_mean_time [Lit ''nan''],
      Row Q_rows [], Row Q_cache_hit [FloatFixed 1 100, Lit ''%''],
      Fixed Blank, Fixed Query_ok, Fixed Rule, Heading H_summary,
      Heading H_good, Good (No_deadlocks [Lit ''app'']), Heading H_critical,
      Fixed No_critical, Heading H_recommendations, Numbered 1 Well_tuned,
      Fixed Rule_after_list, Heading H_info, Fixed Info_source,
      Fixed Info_tools, Fixed Info_method, Fixed Info_method_cont,
      Fixed Info_generated]"

text \<open>
  The report of a workbook in which every analysis comes out empty, for a given period:
  what generate_markdown_report is expected to write when only Properties is present.
\<close>

definition bare_report :: "cell option \<times> cell option \<times> int \<Rightarrow> chunk list" where
  "bare_report period =
     [Heading Title, Fixed Analysis_date,
      Heading H_period,
      Period_start (map_option py_str (fst period)),
      Period_end (map_option py_str (fst (snd period))),
      Period_duration (snd (snd period)),
      Fixed Rule,
      Heading H_databases,
      Fixed Rule,
      Heading H_wal, Fixed Wal_unavailable,
      Fixed Rule,
      Heading H_top_queries, Fixed Queries_unavailable,
      Heading H_summary,
      Heading H_good, Good Stable,
      Heading H_critical, Fixed No_critical,
      Heading H_recommendations, Numbered 1 Well_tuned,
      Fixed Rule_after_list,
      Heading H_info, Fixed Info_source, Fixed Info_tools, Fixed Info_method,
      Fixed Info_method_cont, Fixed Info_generated]"

text \<open>The section headings of a report, in the order they are written.\<close>

fun headings_of :: "chunk list \<Rightarrow> heading list" where
  "headings_of [] = []"
| "headings_of (Heading h # cs) = h # headings_of cs"
| "headings_of (c # cs) = headings_of cs"

definition properties_only_period :: "cell option \<times> cell option \<times> int" where
  "properties_only_period =
     (Some (VStr ''2024-01-01 10:00:00''), Some (VStr ''2024-01-01 11:00:00''), 60)"

definition queries_example :: workbook where
  "queries_example =
     [''top_statements'' \<mapsto>
        \<lparr>columns = [''hexqueryid'', ''total_exec_time'', ''shared_blks_hit'', ''shared_blks_read''],
         rows = [[VStr ''a1'', VFloat (3 / 2), VInt 0, VInt 0],
                 [VStr ''b2'', VFloat (1 / 2), VInt 90, VInt 10],
                 [VStr ''c3'', VFloat (1 / 4), VInt 5, VInt 0]]\<rparr>,
      ''queries'' \<mapsto>
        \<lparr>columns = [''hexqueryid'', ''query_texts''],
         rows = [[VStr ''a1'', VStr (''SELECT   *'' @ [CHR 0x0A] @ '' FROM  t'')],
                 [VStr ''b2'', VStr (''SELECT id, name, created_at FROM customers WHERE   region = 1 ORDER BY id'')]]\<rparr>]"

definition blank_text_example :: workbook where
  "blank_text_example =
     [''top_statements'' \<mapsto>
        \<lparr>columns = [''hexqueryid'', ''total_exec_time''],
         rows = [[VStr ''a1'', VFloat (3 / 2)]]\<rparr>,
      ''queries'' \<mapsto>
        \<lparr>columns = [''hexqueryid'', ''query_texts''],
         rows = [[VStr ''a1'', VStr '' '']]\<rparr>]"

text \<open>The metrics expected for \<open>queries_example\<close>, with the rows kept in their order.\<close>

definition queries_example_metrics :: "query_metrics list" where
  "queries_example_metrics =
     [\<lparr>q_query_id = VStr ''a1'', q_query_preview = ''SELECT * FROM t'',
       q_query_preview_suffix = [], q_dbname = VStr ''N/A'',
       q_username = VStr ''N/A'', q_calls = VInt 0,
       q_total_time = VFloat (3 / 2), q_mean_time = VInt 0,
       q_rows = VInt 0, q_cache_ratio = VInt 100, q_temp_blks = VInt 0,
       q_issues = []\<rparr>,
      \<lparr>q_query_id = VStr ''b2'',
       q_query_preview = ''SELECT id, name, created_at FROM customers WHERE r'',
       q_query_preview_suffix = ''...'', q_dbname = VStr ''N/A'',
       q_username = VStr ''N/A'', q_calls = VInt 0,
       q_total_time = VFloat (1 / 2), q_mean_time = VInt 0,
       q_rows = VInt 0, q_cache_ratio = VFloat 90, q_temp_blks = VInt 0,
       q_issues = []\<rparr>,
      \<lparr>q_query_id = VStr ''c3'', q_query_preview = ''N/A'',
       q_query_preview_suffix = [], q_dbname = VStr ''N/A'',
       q_username = VStr ''N/A'', q_calls = VInt 0,
       q_total_time = VFloat (1 / 4), q_mean_time = VInt 0,
       q_rows = VInt 0, q_cache_ratio = VFloat 100, q_temp_blks = VInt 0,
       q_issues = []\<rparr>]"

definition blank_text_metrics :: "query_metrics list" where
  "blank_text_metrics =
     [\<lparr>q_query_id = VStr ''a1'', q_query_preview = ''N/A'',
       q_query_preview_suffix = [], q_dbname = VStr ''N/A'',
       q_username = VStr ''N/A'', q_calls = VInt 0,
       q_total_time = VFloat (3 / 2), q_mean_time = VInt 0,
       q_rows = VInt 0, q_cache_ratio = VInt 100, q_temp_blks = VInt 0,
       q_issues = []\<rparr>]"

definition wal_example :: workbook where
  "wal_example =
     [''Properties'' \<mapsto>
        \<lparr>columns = [''interval_duration_sec''], rows = [[VInt64 120]]\<rparr>,
      ''wal_stats'' \<mapsto>
        \<lparr>columns = [''wal_records'', ''wal_fpi'', ''wal_bytes''],
         rows = [[VInt64 5000, VInt64 40, VInt64 (240 * 1024 * 1024)]]\<rparr>]"

definition wal_example_summary :: wal_summary where
  "wal_example_summary =
     \<lparr>w_records = VInt64 5000, w_fpi = VInt64 40, w_bytes = VInt64 251658240,
      w_size_mb = VFloat 240, w_size_gb = VFloat (15 / 64),
      w_write_time = VInt 0, w_sync_time = VInt 0\<rparr>"

definition wal_example_report :: "chunk list" where
  "wal_example_report =
     [Heading Title, Fixed Analysis_date, Heading H_period,
      Period_start None, Period_end None, Period_duration 2, Fixed Rule,
      Heading H_databases, Fixed Rule, Heading H_wal,
      Fixed Metric_table_head, Fixed Metric_table_sep,
      Row Wal_records [IntComma 5000], Row Wal_fpi [IntComma 40],
      Row Wal_size [FloatFixed 2 240, Lit '' MB ('', FloatFixed 3 (15 / 64), Lit '' GB)''],
      Row Wal_write_time [FloatFixed 2 0],
      Row Wal_sync_time [FloatFixed 2 0], Wal_rate [FloatFixed 2 120],
      Fixed Wal_high, Fixed Rule, Heading H_top_queries,
      Fixed Queries_unavailable, Heading H_summary, Heading H_good,
      Good Stable, Heading H_critical, Fixed No_critical,
      Heading H_recommendations, Numbered 1 Well_tuned,
      Fixed Rule_after_list, Heading H_info, Fixed Info_source,
      Fixed Info_tools, Fixed Info_method, Fixed Info_method_cont,
      Fixed Info_generated]"

text \<open>
  Sheets whose columns are all integers, so that the cells of a row are int64 values;
  the two counts add up to \<open>10 ^ 19\<close>, beyond the 64-bit range.
\<close>

definition overflow_dbstat :: workbook where
  "overflow_dbstat = [''dbstat'' \<mapsto>
     \<lparr>columns = [''xact_commit'', ''xact_rollback''],
      rows = [[VInt64 5000000000000000000, VInt64 5000000000000000000]]\<rparr>]"

definition overflow_dbstat_metrics :: "db_metrics list" where
  "overflow_dbstat_metrics =
     [\<lparr>d_dbname = VStr ''Unknown'', d_size = VStr ''N/A'', d_size_delta = VStr ''N/A'',
       d_cache_hit_ratio = VInt 0, d_commits = VInt64 5000000000000000000,
       d_rollbacks = VInt64 5000000000000000000, d_rollback_ratio = VInt 0,
       d_deadlocks = VInt 0, d_temp_files = VInt 0, d_temp_bytes = VInt 0,
       d_issues = [Low_cache_hit [FloatFixed 2 0]]\<rparr>]"

definition overflow_statements :: workbook where
  "overflow_statements = [''top_statements'' \<mapsto>
     \<lparr>columns = [''total_exec_time'', ''shared_blks_hit'', ''shared_blks_read''],
      rows = [[VInt64 3, VInt64 5000000000000000000, VInt64 5000000000000000000]]\<rparr>]"

definition overflow_statements_metrics :: "query_metrics list" where
  "overflow_statements_metrics =
     [\<lparr>q_query_id = VStr ''N/A'', q_query_preview = ''N/A'',
       q_query_preview_suffix = [], q_dbname = VStr ''N/A'',
       q_username = VStr ''N/A'', q_calls = VInt 0,
       q_total_time = VInt64 3, q_mean_time = VInt 0,
       q_rows = VInt 0, q_cache_ratio = VInt 100, q_temp_blks = VInt 0,
       q_issues = []\<rparr>]"

text \<open>Indexes with their scan counts: two never scanned, one scanned 5000 times.\<close>

definition index_scan_example :: workbook where
  "index_scan_example = [''top_indexes'' \<mapsto>
     \<lparr>columns = [''schemaname'', ''indexrelname'', ''idx_scan''],
      rows = [[VStr ''public'', VStr ''orders_pkey'', VInt 5000],
              [VStr ''public'', VStr ''orders_created_idx'', VInt 0],
              [VStr ''public'', VStr ''orders_note_idx'', VInt 0]]\<rparr>]"

section \<open>Properties of the model\<close>

lemma bindE_Inr_iff: "bindE m f = Inr y \<longleftrightarrow> (\<exists>x. m = Inr x \<and> f x = Inr y)"
  by (cases m) (simp_all add: bindE_def)

lemma bindE_Inr [simp]: "bindE (Inr x) f = f x"
  by (simp add: bindE_def)

lemma bindE_Inl [simp]: "bindE (Inl e) f = Inl e"
  by (simp add: bindE_def)

lemma mapE_Inr_length: "mapE f xs = Inr ys \<Longrightarrow> length ys = length xs"
  by (induction xs arbitrary: ys) (auto simp: bindE_Inr_iff)

lemma mapE_Inr_nth: "mapE f xs = Inr ys \<Longrightarrow> i < length xs \<Longrightarrow> f (xs ! i) = Inr (ys ! i)"
proof (induction xs arbitrary: ys i)
  case Nil
  then show ?case by simp
next
  case (Cons x xs)
  from Cons.prems(1) obtain y zs where y: "f x = Inr y" and zs: "mapE f xs = Inr zs"
    and ys: "ys = y # zs"
    by (auto simp: bindE_Inr_iff)
  show ?case
  proof (cases i)
    case 0
    with y ys show ?thesis by simp
  next
    case (Suc j)
    with Cons.prems(2) have "j < length xs" by simp
    from Cons.IH [OF zs this] Suc ys show ?thesis by simp
  qed
qed

lemma map_of_zip_absent: "col \<notin> set cols \<Longrightarrow> map_of (zip cols row) col = None"
  by (auto simp: map_of_eq_None_iff dest: set_zip_leftD)

lemma row_get_absent: "col \<notin> set cols \<Longrightarrow> row_get cols row col dflt = dflt"
  by (simp add: row_get_def map_of_zip_absent)

section \<open>The guarded divisions\<close>

text \<open>The two ratio expressions never raise ZeroDivisionError, whatever the cells hold.\<close>

lemma py_gt_positive:
  "py_gt v (VInt 0) = Inr True \<Longrightarrow> \<exists>s. num_of v = Some s \<and> 0 < s"
  by (cases v) (simp_all add: py_gt_def)

lemma py_truediv_positive:
  "num_of v = Some s \<Longrightarrow> 0 < s \<Longrightarrow> py_truediv x v \<noteq> Inl ZeroDivisionError"
  by (cases x; cases v) auto

lemma py_truediv_float:
  "py_truediv x y = Inr q \<Longrightarrow> q = VNaN \<or> (\<exists>v. q = VFloat v)"
  by (cases x; cases y) (auto split: if_splits option.splits)

lemma py_add_no_zero_division: "py_add a b \<noteq> Inl ZeroDivisionError"
  by (cases a; cases b) (auto simp: int64_op_def)

lemma py_gt_no_zero_division: "py_gt a b \<noteq> Inl ZeroDivisionError"
  by (cases a; cases b) (auto simp: py_gt_def)

lemma ratio_no_zero_division:
  "bindE (py_add a b) (\<lambda>total.
     bindE (py_gt total (VInt 0)) (\<lambda>positive.
       if positive then bindE (py_truediv x total) (\<lambda>q. py_mul q (VInt 100))
       else Inr dflt)) \<noteq> Inl ZeroDivisionError"
proof (cases "py_add a b")
  case (Inl e)
  with py_add_no_zero_division [of a b] show ?thesis by simp
next
  case sum: (Inr v)
  show ?thesis
  proof (cases "py_gt v (VInt 0)")
    case (Inl e)
    with py_gt_no_zero_division [of v "VInt 0"] sum show ?thesis by simp
  next
    case (Inr positive)
    show ?thesis
    proof (cases positive)
      case False
      with sum Inr show ?thesis by simp
    next
      case True
      with Inr have "py_gt v (VInt 0) = Inr True" by simp
      from py_gt_positive [OF this] obtain s where s: "num_of v = Some s" "0 < s" by blast
      show ?thesis
      proof (cases "py_truediv x v")
        case (Inl e)
        with py_truediv_positive [OF s, of x] sum Inr True show ?thesis by simp
      next
        case q: (Inr q)
        from py_truediv_float [OF q] have "py_mul q (VInt 100) \<noteq> Inl ZeroDivisionError"
          by auto
        with sum Inr True q show ?thesis by simp
      qed
    qed
  qed
qed

lemma rollback_ratio_of_no_zero_division:
  "rollback_ratio_of commits rollbacks \<noteq> Inl ZeroDivisionError"
  unfolding rollback_ratio_of_def by (rule ratio_no_zero_division)

lemma query_cache_ratio_of_no_zero_division:
  "query_cache_ratio_of shared_blks_hit shared_blks_read \<noteq> Inl ZeroDivisionError"
  unfolding query_cache_ratio_of_def by (rule ratio_no_zero_division)

section \<open>The rollback ratio\<close>

lemma wrap64_id: "in_int64 n \<Longrightarrow> wrap64 n = n"
  by (simp add: in_int64_def wrap64_def)

lemma rollback_ratio_of_exact:
  assumes "num_of commits = Some c" and "num_of rollbacks = Some r"
    and "exact_sum commits rollbacks"
  shows "rollback_ratio_of commits rollbacks =
           Inr (if 0 < c + r then VFloat (r / (c + r) * 100) else VInt 0)"
  using assms
  by (cases commits; cases rollbacks)
     (auto simp: rollback_ratio_of_def py_gt_def int64_op_def wrap64_id)

lemma rollback_ratio_of_int64:
  "rollback_ratio_of (VInt64 m) (VInt64 n) =
     Inr (if 0 < wrap64 (m + n) then VFloat (of_int n / of_int (wrap64 (m + n)) * 100)
          else VInt 0)"
  by (simp add: rollback_ratio_of_def py_gt_def)

lemma dbstat_row_ratio:
  "dbstat_row cols row = Inr m \<Longrightarrow>
     rollback_ratio_of (row_get cols row ''xact_commit'' (VInt 0))
       (row_get cols row ''xact_rollback'' (VInt 0)) = Inr (d_rollback_ratio m)"
  by (auto simp: dbstat_row_def Let_def bindE_Inr_iff)

lemma dbstat_example_results:
  "\<exists>results. analyze_database_stats dbstat_example = Inr results \<and> length results = 2"
  by (simp add: dbstat_example_def analyze_database_stats_def dbstat_row_def
      rollback_ratio_of_def nonzero_positive_def sheet_def df_empty_def row_get_def
      Let_def py_lt_def py_gt_def)

lemma overflow_dbstat_results:
  "analyze_database_stats overflow_dbstat = Inr overflow_dbstat_metrics"
  by (simp add: overflow_dbstat_def overflow_dbstat_metrics_def analyze_database_stats_def
      dbstat_row_def rollback_ratio_of_def nonzero_positive_def sheet_def df_empty_def
      row_get_def Let_def py_lt_def py_gt_def wrap64_def)

text \<open>
  C6, as the code has it. For every row of dbstat whose commit and rollback counts are
  numbers \<open>c\<close> and \<open>r\<close>: when their sum is computed exactly, the rollback ratio that
  analyze_database_stats stores for the row is \<open>r / (c + r) * 100\<close> when \<open>c + r > 0\<close>
  and the integer 0 otherwise, in particular when both counts are 0. When both cells are
  int64 values, the sum is the wrapped sum \<open>s\<close>, and the ratio is \<open>r / s * 100\<close> when
  \<open>s > 0\<close> and 0 otherwise. The divisor is positive whenever the division is made.
\<close>

theorem rollback_ratio_spec:
  assumes "analyze_database_stats wb = Inr results"
    and "i < length results"
    and "row = rows (sheet wb ''dbstat'') ! i"
    and "cols = columns (sheet wb ''dbstat'')"
    and "commits = row_get cols row ''xact_commit'' (VInt 0)"
    and "rollbacks = row_get cols row ''xact_rollback'' (VInt 0)"
    and "num_of commits = Some c"
    and "num_of rollbacks = Some r"
  shows "(exact_sum commits rollbacks \<longrightarrow>
            d_rollback_ratio (results ! i) =
              (if 0 < c + r then VFloat (r / (c + r) * 100) else VInt 0))
       \<and> (\<forall>m n. commits = VInt64 m \<and> rollbacks = VInt64 n \<longrightarrow>
            d_rollback_ratio (results ! i) =
              (if 0 < wrap64 (m + n) then VFloat (of_int n / of_int (wrap64 (m + n)) * 100)
               else VInt 0))"
proof -
  let ?df = "sheet wb ''dbstat''"
  from assms(1,2) have ne: "\<not> df_empty ?df"
    by (auto simp: analyze_database_stats_def Let_def split: if_splits)
  with assms(1) have m: "mapE (dbstat_row (columns ?df)) (rows ?df) = Inr results"
    by (simp add: analyze_database_stats_def Let_def)
  from mapE_Inr_length [OF m] assms(2) have "i < length (rows ?df)" by simp
  from mapE_Inr_nth [OF m this] assms(3,4) have "dbstat_row cols row = Inr (results ! i)"
    by simp
  from dbstat_row_ratio [OF this] assms(5,6)
  have ratio: "rollback_ratio_of commits rollbacks = Inr (d_rollback_ratio (results ! i))"
    by simp
  have "d_rollback_ratio (results ! i) =
          (if 0 < c + r then VFloat (r / (c + r) * 100) else VInt 0)"
    if "exact_sum commits rollbacks"
    using rollback_ratio_of_exact [OF assms(7,8) that] ratio by simp
  moreover have "d_rollback_ratio (results ! i) =
          (if 0 < wrap64 (m + n) then VFloat (of_int n / of_int (wrap64 (m + n)) * 100)
           else VInt 0)"
    if "commits = VInt64 m" and "rollbacks = VInt64 n" for m n
    using rollback_ratio_of_int64 [of m n] ratio that by simp
  ultimately show ?thesis by blast
qed

theorem rollback_ratio_spec_witness:
  "(\<exists>results. analyze_database_stats dbstat_example = Inr results \<and> length results = 2
      \<and> d_rollback_ratio (results ! 0) = VInt 0
      \<and> d_rollback_ratio (results ! 1) = VFloat (10 / (30 + 10) * 100))
   \<and> analyze_database_stats overflow_dbstat = Inr overflow_dbstat_metrics
   \<and> wrap64 (5000000000000000000 + 5000000000000000000) = - 8446744073709551616
   \<and> d_rollback_ratio (overflow_dbstat_metrics ! 0) = VInt 0"
proof -
  obtain results where r: "analyze_database_stats dbstat_example = Inr results"
    and n: "length results = 2"
    using dbstat_example_results by blast
  let ?cols = "columns (sheet dbstat_example ''dbstat'')"
  let ?row = "\<lambda>i. rows (sheet dbstat_example ''dbstat'') ! i"
  have c0: "row_get ?cols (?row 0) ''xact_commit'' (VInt 0) = VInt 0"
    and r0: "row_get ?cols (?row 0) ''xact_rollback'' (VInt 0) = VInt 0"
    and c1: "row_get ?cols (?row 1) ''xact_commit'' (VInt 0) = VInt 30"
    and r1: "row_get ?cols (?row 1) ''xact_rollback'' (VInt 0) = VInt 10"
    by (simp_all add: sheet_def dbstat_example_def row_get_def)
  have i0: "0 < length results" and i1: "1 < length results"
    using n by simp_all
  have "exact_sum (VInt 0) (VInt 0)" and "exact_sum (VInt 30) (VInt 10)"
    by simp_all
  with rollback_ratio_spec [OF r i0 refl refl c0 [symmetric] r0 [symmetric], of 0 0]
    rollback_ratio_spec [OF r i1 refl refl c1 [symmetric] r1 [symmetric], of 30 10]
  have "d_rollback_ratio (results ! 0) = VInt 0"
    and "d_rollback_ratio (results ! 1) = VFloat (10 / (30 + 10) * 100)"
    by simp_all
  moreover have w: "wrap64 (5000000000000000000 + 5000000000000000000) = - 8446744073709551616"
    by (simp add: wrap64_def)
  moreover have "d_rollback_ratio (overflow_dbstat_metrics ! 0) = VInt 0"
  proof -
    let ?big = "5000000000000000000 :: int"
    have l: "0 < length overflow_dbstat_metrics"
      by (simp add: overflow_dbstat_metrics_def)
    have c: "VInt64 ?big = row_get (columns (sheet overflow_dbstat ''dbstat''))
            (rows (sheet overflow_dbstat ''dbstat'') ! 0) ''xact_commit'' (VInt 0)"
      and b: "VInt64 ?big = row_get (columns (sheet overflow_dbstat ''dbstat''))
            (rows (sheet overflow_dbstat ''dbstat'') ! 0) ''xact_rollback'' (VInt 0)"
      by (simp_all add: sheet_def overflow_dbstat_def row_get_def)
    from rollback_ratio_spec [OF overflow_dbstat_results l refl refl c b, of "of_int ?big" "of_int ?big"]
    have "d_rollback_ratio (overflow_dbstat_metrics ! 0) =
            (if 0 < wrap64 (?big + ?big)
             then VFloat (of_int ?big / of_int (wrap64 (?big + ?big)) * 100) else VInt 0)"
      by simp
    with w show ?thesis by simp
  qed
  ultimately show ?thesis using r n overflow_dbstat_results by auto
qed

text \<open>
  C6 as stated fails when the counts are int64 values whose sum leaves the 64-bit range:
  for 5 * 10^18 commits and as many rollbacks the sum is positive and the stated ratio
  is 50, but the wrapped sum is negative and the stored ratio is 0.
\<close>

theorem int64_rollback_ratio_wraps:
  "analyze_database_stats overflow_dbstat = Inr overflow_dbstat_metrics
   \<and> map d_commits overflow_dbstat_metrics = [VInt64 5000000000000000000]
   \<and> map d_rollbacks overflow_dbstat_metrics = [VInt64 5000000000000000000]
   \<and> map d_rollback_ratio overflow_dbstat_metrics = [VInt 0]
   \<and> (0 :: rat) < 5000000000000000000 + 5000000000000000000
   \<and> (5000000000000000000 :: rat) / (5000000000000000000 + 5000000000000000000) * 100 = 50"
  using overflow_dbstat_results by (simp add: overflow_dbstat_metrics_def)

section \<open>Unused indexes\<close>

lemma py_eq_zero: "py_eq v (VInt 0) \<longleftrightarrow> num_of v = Some 0"
  by (cases v) simp_all

text \<open>
  C10. analyze_indexes reports exactly the rows of top_indexes whose idx_scan value
  is a number equal to 0 (the default 0 standing in when the column is absent), in the
  order of the sheet, and never a row with another count, a text or a missing value; so
  when the sheet has no idx_scan column every row is reported, each with 0 scans.
\<close>

theorem unused_index_spec:
  assumes "sheet wb ''top_indexes'' = df" and "\<not> df_empty df"
  shows "analyze_indexes wb =
           map (index_entry (columns df))
             (filter (\<lambda>row. num_of (row_get (columns df) row ''idx_scan'' (VInt 0)) = Some 0)
                (rows df))
         \<and> list_all (\<lambda>m. num_of (i_scans m) = Some 0) (analyze_indexes wb)
         \<and> (''idx_scan'' \<notin> set (columns df) \<longrightarrow>
              analyze_indexes wb = map (index_entry (columns df)) (rows df)
              \<and> list_all (\<lambda>m. i_scans m = VInt 0) (analyze_indexes wb))"
  using assms
  by (auto simp del: py_eq.simps
      simp: analyze_indexes_def Let_def row_get_absent list_all_iff index_entry_def py_eq_zero)

theorem unused_index_spec_witness:
  "\<not> df_empty (sheet index_example ''top_indexes'')
   \<and> ''idx_scan'' \<notin> set (columns (sheet index_example ''top_indexes''))
   \<and> map i_index (analyze_indexes index_example)
       = [VStr ''orders_pkey'', VStr ''orders_created_idx'']
   \<and> \<not> df_empty (sheet index_scan_example ''top_indexes'')
   \<and> map i_index (analyze_indexes index_scan_example)
       = [VStr ''orders_created_idx'', VStr ''orders_note_idx'']
   \<and> map i_scans (analyze_indexes index_scan_example) = [VInt 0, VInt 0]"
proof -
  have ne: "\<not> df_empty (sheet index_example ''top_indexes'')"
    by (simp add: sheet_def index_example_def df_empty_def)
  have ab: "''idx_scan'' \<notin> set (columns (sheet index_example ''top_indexes''))"
    by (simp add: sheet_def index_example_def)
  from unused_index_spec [OF refl ne] ab
  have "analyze_indexes index_example =
          map (index_entry (columns (sheet index_example ''top_indexes'')))
            (rows (sheet index_example ''top_indexes''))"
    by blast
  then have a: "map i_index (analyze_indexes index_example)
                  = [VStr ''orders_pkey'', VStr ''orders_created_idx'']"
    by (simp add: sheet_def index_example_def index_entry_def row_get_def)
  have ne': "\<not> df_empty (sheet index_scan_example ''top_indexes'')"
    by (simp add: sheet_def index_scan_example_def df_empty_def)
  from unused_index_spec [OF refl ne']
  have "analyze_indexes index_scan_example =
          map (index_entry (columns (sheet index_scan_example ''top_indexes'')))
            (filter (\<lambda>row. num_of (row_get (columns (sheet index_scan_example ''top_indexes''))
                                 row ''idx_scan'' (VInt 0)) = Some 0)
               (rows (sheet index_scan_example ''top_indexes'')))"
    by blast
  then have b: "map i_index (analyze_indexes index_scan_example)
                  = [VStr ''orders_created_idx'', VStr ''orders_note_idx'']"
    and c: "map i_scans (analyze_indexes index_scan_example) = [VInt 0, VInt 0]"
    by (simp_all add: sheet_def index_scan_example_def index_entry_def row_get_def)
  from ne ab a ne' b c show ?thesis by blast
qed

subsection \<open>The brace scanner on well-formed JSON\<close>




















section \<open>Absent columns\<close>

lemmas frame_simps = sheet_def df_empty_def row_get_def Let_def empty_frame_def

lemma example_argsort: "rt_argsort example_runtime = keep_order"
  by (simp add: example_runtime_def)

text \<open>
  C1. A top_statements sheet with neither total_exec_time nor total_time makes
  analyze_top_queries raise KeyError in sort_values, before the default of
  \<open>row.get(time_col, 0)\<close> can apply, and the report is not produced; a queries sheet
  without hexqueryid makes get_query_text raise KeyError, with the same effect.
\<close>

theorem missing_columns_raise:
  "analyze_top_queries argsort no_time_columns 10 = Inl KeyError
   \<and> generate_markdown_report rt no_time_columns = Inl KeyError
   \<and> get_query_text no_hexqueryid (VStr ''a1'') = Inl KeyError
   \<and> generate_markdown_report example_runtime no_hexqueryid = Inl KeyError"
proof -
  have a: "analyze_top_queries s no_time_columns 10 = Inl KeyError" for s
    by (simp add: analyze_top_queries_def sort_values_desc_def no_time_columns_def frame_simps)
  have d: "analyze_database_stats no_time_columns = Inr []"
    by (simp add: analyze_database_stats_def no_time_columns_def frame_simps)
  have b: "generate_markdown_report rt no_time_columns = Inl KeyError"
    by (simp add: generate_markdown_report_def Let_def a d)
  have c: "get_query_text no_hexqueryid (VStr ''a1'') = Inl KeyError"
    by (simp add: get_query_text_def no_hexqueryid_def frame_simps)
  have d': "analyze_database_stats no_hexqueryid = Inr []"
    by (simp add: analyze_database_stats_def no_hexqueryid_def frame_simps)
  have s: "sort_values_desc keep_order ''total_exec_time'' (sheet no_hexqueryid ''top_statements'')
             = Inr (sheet no_hexqueryid ''top_statements'')"
    by (simp add: sort_values_desc_def keep_order_def select_rows_def no_hexqueryid_def frame_simps)
  have e: "analyze_top_queries keep_order no_hexqueryid 10 = Inl KeyError"
    using c
    by (simp add: analyze_top_queries_def top_query_row_def sort_values_desc_def keep_order_def
        select_rows_def no_hexqueryid_def frame_simps)
  have f: "generate_markdown_report example_runtime no_hexqueryid = Inl KeyError"
    by (simp add: generate_markdown_report_def example_argsort Let_def e d')
  from a b c f show ?thesis by simp
qed

section \<open>Missing values in the report\<close>

text \<open>
  C4. A dbstat row with an empty blks_hit_pct cell and a top_statements row with empty
  mean_exec_time and calls cells: the report is written, and these three table cells
  hold the text nan (the cache hit cell as \<open>nan%\<close>), not an empty cell.
\<close>

theorem nan_is_printed:
  "generate_markdown_report example_runtime nan_example = Inr nan_example_report
   \<and> Row Db_cache_hit [Lit ''nan'', Lit ''%''] \<in> set nan_example_report
   \<and> Row Q_mean_time [Lit ''nan''] \<in> set nan_example_report
   \<and> Row Q_calls [Lit ''nan''] \<in> set nan_example_report"
proof -
  have db: "analyze_database_stats nan_example =
      Inr [\<lparr>d_dbname = VStr ''app'', d_size = VStr ''N/A'', d_size_delta = VStr ''N/A'',
            d_cache_hit_ratio = VNaN, d_commits = VInt 10, d_rollbacks = VInt 0,
            d_rollback_ratio = VFloat 0, d_deadlocks = VInt 0, d_temp_files = VInt 0,
            d_temp_bytes = VInt 0, d_issues = []\<rparr>]"
    by (simp add: analyze_database_stats_def dbstat_row_def rollback_ratio_of_def
        nonzero_positive_def py_lt_def py_gt_def nan_example_def frame_simps)
  have q: "analyze_top_queries keep_order nan_example 10 =
      Inr [\<lparr>q_query_id = VStr ''a1'', q_query_preview = ''N/A'', q_query_preview_suffix = [],
            q_dbname = VStr ''N/A'', q_username = VStr ''N/A'', q_calls = VNaN,
            q_total_time = VFloat (3 / 2), q_mean_time = VNaN, q_rows = VInt 0,
            q_cache_ratio = VInt 100, q_temp_blks = VInt 0, q_issues = []\<rparr>]"
    by (simp add: analyze_top_queries_def top_query_row_def sort_values_desc_def keep_order_def
        select_rows_def get_query_text_def query_cache_ratio_of_def query_preview_of_def
        query_preview_suffix_of_def py_lt_def py_gt_def nan_example_def frame_simps)
  have w: "analyze_wal_stats nan_example = Inr None"
    by (simp add: analyze_wal_stats_def nan_example_def frame_simps)
  have tw: "analyze_top_wal_queries example_runtime nan_example 5 = Inr []"
    by (simp add: analyze_top_wal_queries_def nan_example_def frame_simps)
  have t: "analyze_tables nan_example 10 = Inr []"
    by (simp add: analyze_tables_def nan_example_def frame_simps)
  have i: "analyze_indexes nan_example = []"
    by (simp add: analyze_indexes_def nan_example_def frame_simps)
  have p: "get_report_period nan_example = (None, None, 0)"
    by (simp add: get_report_period_def nan_example_def frame_simps)
  have "generate_markdown_report example_runtime nan_example = Inr nan_example_report"
    by (simp add: generate_markdown_report_def example_argsort db q w tw t i p Let_def
        concatE_def report_database_def str_or_blank_def int_comma_or_blank_def int_or_blank_def
        report_wal_def report_top_wal_def report_top_queries_def report_query_def
        report_tables_def report_indexes_def report_summary_def good_things_of_def
        critical_of_def db_advice_of_def between_90_95_def nonzero_positive_def enumerate1_def
        py_lt_def py_gt_def py_ge_def py_le_def nan_example_report_def)
  moreover have "Row Db_cache_hit [Lit ''nan'', Lit ''%''] \<in> set nan_example_report"
    and "Row Q_mean_time [Lit ''nan''] \<in> set nan_example_report"
    and "Row Q_calls [Lit ''nan''] \<in> set nan_example_report"
    by (simp_all add: nan_example_report_def)
  ultimately show ?thesis by simp
qed

section \<open>The report of a workbook with only a Properties sheet\<close>

lemma sheet_absent: "wb name = None \<Longrightarrow> sheet wb name = empty_frame"
  by (simp add: sheet_def)

lemma df_empty_empty_frame: "df_empty empty_frame"
  by (simp add: df_empty_def empty_frame_def)

text \<open>
  C3, as the code has it. When Properties is the only sheet, the report is produced and
  is exactly the bare report: title, period, the databases heading with nothing under
  it, the WAL heading with its placeholder, the top queries heading with its
  placeholder, the summary with its three default lines, and the footer. The sections
  for the top WAL queries, the problem tables and the unused indexes are written only
  when they have entries, so their headings are absent.
\<close>

theorem report_of_properties_only:
  assumes "\<And>name. name \<noteq> ''Properties'' \<Longrightarrow> wb name = None"
  shows "generate_markdown_report rt wb = Inr (bare_report (get_report_period wb))
         \<and> headings_of (bare_report (get_report_period wb)) =
             [Title, H_period, H_databases, H_wal, H_top_queries, H_summary, H_good,
              H_critical, H_recommendations, H_info]"
proof -
  have e: "df_empty (sheet wb name)" if "name \<noteq> ''Properties''" for name
    using assms [OF that] by (simp add: sheet_absent df_empty_empty_frame)
  have db: "analyze_database_stats wb = Inr []"
    using e [of "''dbstat''"] by (simp add: analyze_database_stats_def Let_def)
  have q: "analyze_top_queries (rt_argsort rt) wb 10 = Inr []"
    using e [of "''top_statements''"] by (simp add: analyze_top_queries_def Let_def)
  have w: "analyze_wal_stats wb = Inr None"
    using e [of "''wal_stats''"] by (simp add: analyze_wal_stats_def Let_def)
  have tw: "analyze_top_wal_queries rt wb 5 = Inr []"
    using e [of "''top_statements''"] by (simp add: analyze_top_wal_queries_def Let_def)
  have t: "analyze_tables wb 10 = Inr []"
    using e [of "''top_tables''"] by (simp add: analyze_tables_def Let_def)
  have i: "analyze_indexes wb = []"
    using e [of "''top_indexes''"] by (simp add: analyze_indexes_def Let_def)
  have s: "report_summary [] [] [] [] =
             Inr [Heading H_summary, Heading H_good, Good Stable, Heading H_critical,
                  Fixed No_critical, Heading H_recommendations, Numbered 1 Well_tuned,
                  Fixed Rule_after_list]"
    by (simp add: report_summary_def concatE_def enumerate1_def Let_def)
  have "generate_markdown_report rt wb = Inr (bare_report (get_report_period wb))"
    by (simp add: generate_markdown_report_def db q w tw t i s Let_def concatE_def
        report_wal_def report_top_wal_def report_top_queries_def report_tables_def
        report_indexes_def bare_report_def)
  moreover have "headings_of (bare_report (get_report_period wb)) =
             [Title, H_period, H_databases, H_wal, H_top_queries, H_summary, H_good,
              H_critical, H_recommendations, H_info]"
    by (simp add: bare_report_def)
  ultimately show ?thesis by simp
qed

theorem report_of_properties_only_witness:
  "generate_markdown_report example_runtime properties_only =
     Inr (bare_report properties_only_period)
   \<and> Fixed Wal_unavailable \<in> set (bare_report (get_report_period properties_only))
   \<and> Fixed Queries_unavailable \<in> set (bare_report (get_report_period properties_only))"
proof -
  have a: "properties_only name = None" if "name \<noteq> ''Properties''" for name
    using that by (simp add: properties_only_def)
  have p: "get_report_period properties_only =
             properties_only_period"
    by (simp add: get_report_period_def first_of_column_def properties_only_def trunc_def
        properties_only_period_def sheet_def df_empty_def row_get_def Let_def)
  from report_of_properties_only [of properties_only example_runtime, OF a] p show ?thesis
    by (simp add: bare_report_def)
qed

text \<open>
  C3 as stated fails: in the report of a workbook with only a Properties sheet the
  headings of three sections of the fixed order are missing.
\<close>

theorem properties_only_omits_sections:
  "generate_markdown_report example_runtime properties_only =
     Inr (bare_report properties_only_period)
   \<and> Heading H_top_wal \<notin> set (bare_report properties_only_period)
   \<and> Heading H_tables \<notin> set (bare_report properties_only_period)
   \<and> Heading H_indexes \<notin> set (bare_report properties_only_period)"
proof -
  have e: "sheet properties_only name = empty_frame" if "name \<noteq> ''Properties''" for name
    using that by (simp add: sheet_def properties_only_def)
  have p: "get_report_period properties_only =
             properties_only_period"
    by (simp add: get_report_period_def first_of_column_def properties_only_def trunc_def
        properties_only_period_def sheet_def df_empty_def row_get_def Let_def)
  have "generate_markdown_report example_runtime properties_only =
     Inr (bare_report properties_only_period)"
    by (simp add: generate_markdown_report_def p e df_empty_empty_frame Let_def
        analyze_database_stats_def analyze_top_queries_def analyze_wal_stats_def
        analyze_top_wal_queries_def analyze_tables_def analyze_indexes_def
        report_summary_def concatE_def enumerate1_def
        report_wal_def report_top_wal_def report_top_queries_def report_tables_def
        report_indexes_def bare_report_def)
  then show ?thesis by (simp add: bare_report_def)
qed

section \<open>The rows behind the results of analyze_top_queries\<close>

lemma mapE_Inr_set: "mapE f xs = Inr ys \<Longrightarrow> y \<in> set ys \<Longrightarrow> \<exists>x\<in>set xs. f x = Inr y"
proof (induction xs arbitrary: ys)
  case Nil
  then show ?case by simp
next
  case (Cons x xs)
  from Cons.prems(1) obtain z zs where z: "f x = Inr z" and zs: "mapE f xs = Inr zs"
    and ys: "ys = z # zs"
    by (auto simp: bindE_Inr_iff)
  show ?case
  proof (cases "y = z")
    case True
    with z show ?thesis by simp
  next
    case False
    with Cons.prems(2) ys have "y \<in> set zs" by simp
    from Cons.IH [OF zs this] show ?thesis by auto
  qed
qed

lemma set_select_rows: "x \<in> set (select_rows xs positions) \<Longrightarrow> x \<in> set xs"
  by (auto simp: select_rows_def)

lemma sort_values_desc_rows:
  "sort_values_desc argsort col df = Inr df_sorted \<Longrightarrow> set (rows df_sorted) \<subseteq> set (rows df)"
  by (auto simp: sort_values_desc_def bindE_Inr_iff split: if_splits dest: set_select_rows)

lemma analyze_top_queries_row:
  assumes "analyze_top_queries argsort wb top_n = Inr results" and "q \<in> set results"
  shows "\<exists>row\<in>set (rows (sheet wb ''top_statements'')). \<exists>time_col mean_col.
           top_query_row wb time_col mean_col (columns (sheet wb ''top_statements'')) row = Inr q"
proof -
  let ?df = "sheet wb ''top_statements''"
  from assms have ne: "\<not> df_empty ?df"
    by (auto simp: analyze_top_queries_def Let_def split: if_splits)
  with assms(1) obtain time_col mean_col df_sorted
    where s: "sort_values_desc argsort time_col ?df = Inr df_sorted"
      and m: "mapE (top_query_row wb time_col mean_col (columns ?df)) (take top_n (rows df_sorted))
                = Inr results"
    by (auto simp: analyze_top_queries_def Let_def bindE_Inr_iff)
  from mapE_Inr_set [OF m assms(2)] obtain row
    where r: "row \<in> set (take top_n (rows df_sorted))"
      and b: "top_query_row wb time_col mean_col (columns ?df) row = Inr q"
    by blast
  from r have "row \<in> set (rows df_sorted)" by (rule in_set_takeD)
  with sort_values_desc_rows [OF s] have "row \<in> set (rows ?df)" by blast
  with b show ?thesis by blast
qed

lemma top_query_row_fields:
  assumes "top_query_row wb time_col mean_col cols row = Inr q"
  shows "q_query_id q = row_get cols row ''hexqueryid'' (VStr ''N/A'')"
    and "query_cache_ratio_of (row_get cols row ''shared_blks_hit'' (VInt 0))
           (row_get cols row ''shared_blks_read'' (VInt 0)) = Inr (q_cache_ratio q)"
    and "\<exists>query_text. get_query_text wb (q_query_id q) = Inr query_text
           \<and> q_query_preview q = query_preview_of query_text
           \<and> q_query_preview_suffix q = query_preview_suffix_of query_text"
  using assms by (auto simp: top_query_row_def Let_def bindE_Inr_iff)

lemma query_cache_ratio_of_exact:
  assumes "num_of shared_blks_hit = Some h" and "num_of shared_blks_read = Some r"
    and "exact_sum shared_blks_hit shared_blks_read"
  shows "query_cache_ratio_of shared_blks_hit shared_blks_read =
           Inr (if 0 < h + r then VFloat (h / (h + r) * 100) else VInt 100)"
  using assms
  by (cases shared_blks_hit; cases shared_blks_read)
     (auto simp: query_cache_ratio_of_def py_gt_def int64_op_def wrap64_id)

lemma query_cache_ratio_of_int64:
  "query_cache_ratio_of (VInt64 m) (VInt64 n) =
     Inr (if 0 < wrap64 (m + n) then VFloat (of_int m / of_int (wrap64 (m + n)) * 100)
          else VInt 100)"
  by (simp add: query_cache_ratio_of_def py_gt_def)

text \<open>
  C7, as the code has it. Every result of analyze_top_queries is computed from a row of
  top_statements. When the row's shared_blks_hit and shared_blks_read are numbers \<open>h\<close>
  and \<open>r\<close> whose sum is computed exactly, its cache ratio is \<open>h / (h + r) * 100\<close> when
  \<open>h + r > 0\<close> and the integer 100 otherwise, in particular when both are 0. When both
  cells are int64 values, the sum is the wrapped sum \<open>s\<close>, and the ratio is
  \<open>h / s * 100\<close> when \<open>s > 0\<close> and 100 otherwise.
\<close>

theorem query_cache_ratio_spec:
  assumes "analyze_top_queries argsort wb top_n = Inr results" and "q \<in> set results"
    and "cols = columns (sheet wb ''top_statements'')"
  shows "\<exists>row\<in>set (rows (sheet wb ''top_statements'')).
           q_query_id q = row_get cols row ''hexqueryid'' (VStr ''N/A'')
           \<and> (\<forall>h r. num_of (row_get cols row ''shared_blks_hit'' (VInt 0)) = Some h
                    \<and> num_of (row_get cols row ''shared_blks_read'' (VInt 0)) = Some r
                    \<and> exact_sum (row_get cols row ''shared_blks_hit'' (VInt 0))
                          (row_get cols row ''shared_blks_read'' (VInt 0))
                 \<longrightarrow> q_cache_ratio q = (if 0 < h + r then VFloat (h / (h + r) * 100) else VInt 100))
           \<and> (\<forall>m n. row_get cols row ''shared_blks_hit'' (VInt 0) = VInt64 m
                    \<and> row_get cols row ''shared_blks_read'' (VInt 0) = VInt64 n
                 \<longrightarrow> q_cache_ratio q =
                       (if 0 < wrap64 (m + n)
                        then VFloat (of_int m / of_int (wrap64 (m + n)) * 100) else VInt 100))"
proof -
  from analyze_top_queries_row [OF assms(1,2)] assms(3) obtain row time_col mean_col
    where r: "row \<in> set (rows (sheet wb ''top_statements''))"
      and b: "top_query_row wb time_col mean_col cols row = Inr q"
    by blast
  let ?hit = "row_get cols row ''shared_blks_hit'' (VInt 0)"
  let ?read = "row_get cols row ''shared_blks_read'' (VInt 0)"
  have "q_cache_ratio q = (if 0 < h + r then VFloat (h / (h + r) * 100) else VInt 100)"
    if "num_of ?hit = Some h" and "num_of ?read = Some r" and "exact_sum ?hit ?read" for h r
    using top_query_row_fields(2) [OF b] query_cache_ratio_of_exact [OF that] by simp
  moreover have "q_cache_ratio q =
                   (if 0 < wrap64 (m + n)
                    then VFloat (of_int m / of_int (wrap64 (m + n)) * 100) else VInt 100)"
    if "?hit = VInt64 m" and "?read = VInt64 n" for m n
    using top_query_row_fields(2) [OF b] query_cache_ratio_of_int64 [of m n] that by simp
  ultimately show ?thesis
    using r top_query_row_fields(1) [OF b] by blast
qed

lemmas query_eval = analyze_top_queries_def top_query_row_def sort_values_desc_def keep_order_def
  select_rows_def get_query_text_def matching_rows_def query_cache_ratio_of_def
  query_preview_of_def query_preview_suffix_of_def normalize_ws_def py_split_def is_space_def
  py_lt_def py_gt_def frame_simps

lemma queries_example_results:
  "analyze_top_queries keep_order queries_example 10 = Inr queries_example_metrics"
  by (simp add: queries_example_def queries_example_metrics_def query_eval)

lemma overflow_statements_results:
  "analyze_top_queries keep_order overflow_statements 10 = Inr overflow_statements_metrics"
  by (simp add: overflow_statements_def overflow_statements_metrics_def query_eval wrap64_def)

theorem query_cache_ratio_spec_witness:
  "analyze_top_queries keep_order queries_example 10 = Inr queries_example_metrics
   \<and> queries_example_metrics ! 1 \<in> set queries_example_metrics
   \<and> q_query_id (queries_example_metrics ! 1) = VStr ''b2''
   \<and> q_cache_ratio (queries_example_metrics ! 1) = VFloat (90 / (90 + 10) * 100)
   \<and> analyze_top_queries keep_order overflow_statements 10 = Inr overflow_statements_metrics
   \<and> wrap64 (5000000000000000000 + 5000000000000000000) = - 8446744073709551616
   \<and> q_cache_ratio (overflow_statements_metrics ! 0) = VInt 100"
proof -
  let ?q = "queries_example_metrics ! 1"
  let ?cols = "columns (sheet queries_example ''top_statements'')"
  have m: "?q \<in> set queries_example_metrics"
    by (simp add: queries_example_metrics_def)
  have i: "q_query_id ?q = VStr ''b2''"
    by (simp add: queries_example_metrics_def)
  from query_cache_ratio_spec [OF queries_example_results m refl]
  obtain row where r: "row \<in> set (rows (sheet queries_example ''top_statements''))"
    and k: "q_query_id ?q = row_get ?cols row ''hexqueryid'' (VStr ''N/A'')"
    and f: "\<And>h r. num_of (row_get ?cols row ''shared_blks_hit'' (VInt 0)) = Some h
              \<Longrightarrow> num_of (row_get ?cols row ''shared_blks_read'' (VInt 0)) = Some r
              \<Longrightarrow> exact_sum (row_get ?cols row ''shared_blks_hit'' (VInt 0))
                    (row_get ?cols row ''shared_blks_read'' (VInt 0))
              \<Longrightarrow> q_cache_ratio ?q = (if 0 < h + r then VFloat (h / (h + r) * 100) else VInt 100)"
    by blast
  from r k i have "row = [VStr ''b2'', VFloat (1 / 2), VInt 90, VInt 10]"
    by (auto simp: queries_example_def frame_simps)
  then have a: "q_cache_ratio ?q = VFloat (90 / (90 + 10) * 100)"
    using f [of 90 10] by (simp add: queries_example_def frame_simps)
  let ?p = "overflow_statements_metrics ! 0"
  let ?ocols = "columns (sheet overflow_statements ''top_statements'')"
  let ?big = "5000000000000000000 :: int"
  have w: "wrap64 (5000000000000000000 + 5000000000000000000) = - 8446744073709551616"
    by (simp add: wrap64_def)
  have pm: "?p \<in> set overflow_statements_metrics"
    by (simp add: overflow_statements_metrics_def)
  from query_cache_ratio_spec [OF overflow_statements_results pm refl]
  obtain orow where o: "orow \<in> set (rows (sheet overflow_statements ''top_statements''))"
    and g: "\<And>m n. row_get ?ocols orow ''shared_blks_hit'' (VInt 0) = VInt64 m
              \<Longrightarrow> row_get ?ocols orow ''shared_blks_read'' (VInt 0) = VInt64 n
              \<Longrightarrow> q_cache_ratio ?p =
                    (if 0 < wrap64 (m + n)
                     then VFloat (of_int m / of_int (wrap64 (m + n)) * 100) else VInt 100)"
    by blast
  from o have "orow = [VInt64 3, VInt64 ?big, VInt64 ?big]"
    by (simp add: overflow_statements_def frame_simps)
  then have "q_cache_ratio ?p =
               (if 0 < wrap64 (?big + ?big)
                then VFloat (of_int ?big / of_int (wrap64 (?big + ?big)) * 100) else VInt 100)"
    using g [of ?big ?big] by (simp add: overflow_statements_def frame_simps)
  with w have b: "q_cache_ratio ?p = VInt 100" by simp
  from queries_example_results m i a overflow_statements_results w b show ?thesis by simp
qed

text \<open>
  C7 as stated fails when the two block counts are int64 values whose sum leaves the
  64-bit range: for 5 * 10^18 hits and as many reads the sum is positive and the stated
  ratio is 50, but the wrapped sum is negative and the stored ratio is 100.
\<close>

theorem int64_cache_ratio_wraps:
  "analyze_top_queries keep_order overflow_statements 10 = Inr overflow_statements_metrics
   \<and> rows (sheet overflow_statements ''top_statements'')
       = [[VInt64 3, VInt64 5000000000000000000, VInt64 5000000000000000000]]
   \<and> map q_cache_ratio overflow_statements_metrics = [VInt 100]
   \<and> (0 :: rat) < 5000000000000000000 + 5000000000000000000
   \<and> (5000000000000000000 :: rat) / (5000000000000000000 + 5000000000000000000) * 100 = 50"
  using overflow_statements_results
  by (simp add: overflow_statements_metrics_def overflow_statements_def sheet_def)

section \<open>White space normalisation\<close>

lemma split_acc_words:
  "w \<in> set (split_acc cur s) \<Longrightarrow> list_all (\<lambda>c. \<not> is_space c) cur
     \<Longrightarrow> w \<noteq> [] \<and> list_all (\<lambda>c. \<not> is_space c) w"
  by (induction cur s rule: split_acc.induct) (auto split: if_splits)

lemma concat_split_acc:
  "concat (split_acc cur s) = cur @ filter (\<lambda>c. \<not> is_space c) s"
  by (induction cur s rule: split_acc.induct) auto

lemma py_split_words:
  "w \<in> set (py_split s) \<Longrightarrow> w \<noteq> [] \<and> list_all (\<lambda>c. \<not> is_space c) w"
  using split_acc_words [of w "[]" s] by (simp add: py_split_def)

lemma concat_py_split: "concat (py_split s) = filter (\<lambda>c. \<not> is_space c) s"
  by (simp add: py_split_def concat_split_acc)

lemma join_space_Nil_iff: "join_space ws = [] \<longleftrightarrow> ws = [] \<or> ws = [[]]"
  by (induction ws rule: join_space.induct) auto

lemma normalize_ws_Nil_iff: "normalize_ws s = [] \<longleftrightarrow> list_all is_space s"
proof -
  have "normalize_ws s = [] \<longleftrightarrow> py_split s = []"
    using py_split_words [of _ s]
    by (cases "py_split s") (auto simp: normalize_ws_def join_space_Nil_iff)
  also have "\<dots> \<longleftrightarrow> concat (py_split s) = []"
    using py_split_words [of _ s] by (cases "py_split s") auto
  also have "\<dots> \<longleftrightarrow> list_all is_space s"
    by (simp add: concat_py_split filter_empty_conv list_all_iff)
  finally show ?thesis .
qed

lemma py_eq_NaN: "py_eq VNaN x = False"
  by (cases x) simp_all

lemma matching_rows_empty: "df_empty df \<Longrightarrow> matching_rows df query_id = []"
  by (auto simp: df_empty_def matching_rows_def row_get_def py_eq_NaN filter_empty_conv)

lemma get_query_text_found:
  assumes "get_query_text wb query_id = Inr query_text"
    and "found = matching_rows (sheet wb ''queries'') query_id"
  shows "found = [] \<Longrightarrow> query_text = None"
    and "found \<noteq> [] \<Longrightarrow> row_get (columns (sheet wb ''queries'')) (hd found) ''query_texts'' VNaN = VStr s
           \<Longrightarrow> query_text = (if s \<noteq> [] then Some (normalize_ws s) else None)"
proof -
  show "query_text = None" if "found = []"
    using assms that
    by (auto simp: get_query_text_def Let_def split: if_splits)
  show "query_text = (if s \<noteq> [] then Some (normalize_ws s) else None)"
    if "found \<noteq> []"
      and "row_get (columns (sheet wb ''queries'')) (hd found) ''query_texts'' VNaN = VStr s"
  proof -
    from that(1) assms(2) have "\<not> df_empty (sheet wb ''queries'')"
      using matching_rows_empty by blast
    moreover from that(1) assms(2) obtain first rest
      where "matching_rows (sheet wb ''queries'') query_id = first # rest"
      by (cases "matching_rows (sheet wb ''queries'') query_id") auto
    ultimately show ?thesis
      using assms(1) that(2) unfolding assms(2)
      by (auto simp: get_query_text_def Let_def split: if_splits)
  qed
qed

text \<open>
  C9, as the code has it. For a result of analyze_top_queries, let \<open>found\<close> be the rows
  of the queries sheet whose hexqueryid equals the result's query id. If there is none,
  the preview is N/A with no suffix. If the first of them holds a string, the preview
  is the first 50 characters of the text with its white space normalised (the words
  joined by single spaces), and the suffix is the ellipsis exactly when the normalised
  text is longer than 50 characters; but a string of white space only (or the empty
  string) gives N/A with no suffix, as an absent id does.
\<close>

theorem query_preview_spec:
  assumes "analyze_top_queries argsort wb top_n = Inr results" and "q \<in> set results"
    and "found = matching_rows (sheet wb ''queries'') (q_query_id q)"
  shows "(found = [] \<longrightarrow> q_query_preview q = ''N/A'' \<and> q_query_preview_suffix q = [])
       \<and> (\<forall>s. found \<noteq> []
               \<and> row_get (columns (sheet wb ''queries'')) (hd found) ''query_texts'' VNaN = VStr s
             \<longrightarrow> (if list_all is_space s
                  then q_query_preview q = ''N/A'' \<and> q_query_preview_suffix q = []
                  else q_query_preview q = take 50 (normalize_ws s)
                       \<and> q_query_preview_suffix q
                           = (if 50 < length (normalize_ws s) then ''...'' else [])))"
proof -
  from analyze_top_queries_row [OF assms(1,2)] obtain row time_col mean_col
    where "top_query_row wb time_col mean_col (columns (sheet wb ''top_statements'')) row = Inr q"
    by blast
  from top_query_row_fields(3) [OF this] obtain query_text
    where g: "get_query_text wb (q_query_id q) = Inr query_text"
      and p: "q_query_preview q = query_preview_of query_text"
      and x: "q_query_preview_suffix q = query_preview_suffix_of query_text"
    by blast
  have absent: "q_query_preview q = ''N/A'' \<and> q_query_preview_suffix q = []" if "found = []"
    using get_query_text_found(1) [OF g assms(3) that] p x
    by (simp add: query_preview_of_def query_preview_suffix_of_def)
  have present: "if list_all is_space s
                 then q_query_preview q = ''N/A'' \<and> q_query_preview_suffix q = []
                 else q_query_preview q = take 50 (normalize_ws s)
                      \<and> q_query_preview_suffix q
                          = (if 50 < length (normalize_ws s) then ''...'' else [])"
    if "found \<noteq> []"
      and "row_get (columns (sheet wb ''queries'')) (hd found) ''query_texts'' VNaN = VStr s" for s
  proof (cases "s = []")
    case True
    with get_query_text_found(2) [OF g assms(3) that] p x show ?thesis
      by (simp add: query_preview_of_def query_preview_suffix_of_def)
  next
    case False
    with get_query_text_found(2) [OF g assms(3) that]
    have "query_text = Some (normalize_ws s)" by simp
    with p x show ?thesis
      by (simp add: query_preview_of_def query_preview_suffix_of_def normalize_ws_Nil_iff)
  qed
  from absent present show ?thesis by blast
qed

lemma blank_text_results:
  "analyze_top_queries keep_order blank_text_example 10 = Inr blank_text_metrics"
  by (simp add: blank_text_example_def blank_text_metrics_def query_eval)

theorem query_preview_spec_witness:
  "analyze_top_queries keep_order queries_example 10 = Inr queries_example_metrics
   \<and> map q_query_preview queries_example_metrics =
        [''SELECT * FROM t'', ''SELECT id, name, created_at FROM customers WHERE r'', ''N/A'']
   \<and> map q_query_preview_suffix queries_example_metrics = ['''', ''...'', '''']
   \<and> normalize_ws (''SELECT   *'' @ [CHR 0x0A] @ '' FROM  t'') = ''SELECT * FROM t''
   \<and> q_query_preview (queries_example_metrics ! 0)
        = take 50 (normalize_ws (''SELECT   *'' @ [CHR 0x0A] @ '' FROM  t''))"
proof -
  let ?q = "queries_example_metrics ! 0"
  let ?s = "''SELECT   *'' @ [CHR 0x0A] @ '' FROM  t''"
  have m: "?q \<in> set queries_example_metrics"
    by (simp add: queries_example_metrics_def)
  have f: "matching_rows (sheet queries_example ''queries'') (q_query_id ?q)
             = [[VStr ''a1'', VStr ?s]]"
    by (simp add: matching_rows_def queries_example_def queries_example_metrics_def frame_simps)
  have t: "row_get (columns (sheet queries_example ''queries''))
             (hd (matching_rows (sheet queries_example ''queries'') (q_query_id ?q)))
             ''query_texts'' VNaN = VStr ?s"
    by (simp add: f) (simp add: queries_example_def frame_simps)
  have n: "normalize_ws ?s = ''SELECT * FROM t''"
    by (simp add: normalize_ws_def py_split_def is_space_def)
  have ns: "\<not> list_all is_space ?s"
    by (simp add: is_space_def)
  from query_preview_spec [OF queries_example_results m refl] f t ns
  have "q_query_preview ?q = take 50 (normalize_ws ?s)"
    by (metis list.distinct(1))
  with queries_example_results n show ?thesis
    by (simp add: queries_example_metrics_def)
qed

text \<open>
  C9 as stated fails for a stored text that is not empty but holds white space only:
  its normalised form is empty and so is any truncation of it, yet the preview is N/A.
\<close>

theorem blank_text_preview:
  "analyze_top_queries keep_order blank_text_example 10 = Inr blank_text_metrics
   \<and> matching_rows (sheet blank_text_example ''queries'') (VStr ''a1'') = [[VStr ''a1'', VStr '' '']]
   \<and> map q_query_id blank_text_metrics = [VStr ''a1'']
   \<and> map q_query_preview blank_text_metrics = [''N/A'']
   \<and> take 50 (normalize_ws '' '') = []"
proof -
  have "matching_rows (sheet blank_text_example ''queries'') (VStr ''a1'') = [[VStr ''a1'', VStr '' '']]"
    by (simp add: matching_rows_def blank_text_example_def frame_simps)
  moreover have "take 50 (normalize_ws '' '') = []"
    by (simp add: normalize_ws_def py_split_def is_space_def)
  ultimately show ?thesis
    using blank_text_results by (simp add: blank_text_metrics_def)
qed

section \<open>The WAL classification line\<close>

lemma concatE_filter_Nil:
  assumes "concatE f xs = Inr out" and "\<And>x ys. f x = Inr ys \<Longrightarrow> filter P ys = []"
  shows "filter P out = []"
proof -
  from assms(1) obtain yss where m: "mapE f xs = Inr yss" and out: "out = concat yss"
    by (auto simp: concatE_def bindE_Inr_iff)
  have "filter P ys = []" if "ys \<in> set yss" for ys
    using mapE_Inr_set [OF m that] assms(2) by blast
  then show ?thesis
    unfolding out by (induction yss) auto
qed

lemma guarded_single_quiet:
  assumes "(if c then bindE m (\<lambda>t. Inr [g t]) else Inr []) = Inr out"
    and "\<And>t. \<not> is_wal_activity (g t)"
  shows "filter is_wal_activity out = []"
  using assms by (auto simp: bindE_Inr_iff split: if_splits)

lemma map_quiet: "(\<And>x. \<not> is_wal_activity (g x)) \<Longrightarrow> filter is_wal_activity (map g xs) = []"
  by (induction xs) auto

lemma report_database_quiet:
  "report_database db = Inr out \<Longrightarrow> filter is_wal_activity out = []"
  by (auto simp: report_database_def Let_def bindE_Inr_iff map_quiet)

lemma report_wal_query_quiet:
  assumes "report_wal_query iq = Inr out"
  shows "filter is_wal_activity out = []"
proof -
  from assms obtain share calls mb has_share where
    s: "(if has_share then bindE (fmt_fixed 1 (wq_wal_pct (snd iq))) (\<lambda>t. Inr [Wal_query_share t])
         else Inr []) = Inr share"
    and out: "out = [Wal_query_title (fst iq) (py_str (wq_query_id (snd iq))),
            Wal_query_preview [Lit (wq_query_preview (snd iq)), Lit (wq_query_preview_suffix (snd iq))],
            Wal_query_db (py_str (wq_dbname (snd iq))),
            Wal_query_calls calls,
            Wal_query_volume mb] @ share @ [Fixed Blank2]"
    by (auto simp: report_wal_query_def Let_def bindE_Inr_iff)
  from guarded_single_quiet [OF s] show ?thesis by (simp add: out)
qed

lemma report_top_wal_quiet:
  "report_top_wal qs = Inr out \<Longrightarrow> filter is_wal_activity out = []"
  by (auto simp: report_top_wal_def bindE_Inr_iff split: if_splits
      dest!: concatE_filter_Nil [where P = is_wal_activity, OF _ report_wal_query_quiet])


lemma report_query_quiet:
  assumes "report_query iq = Inr out"
  shows "filter is_wal_activity out = []"
proof -
  let ?query = "snd iq"
  from assms obtain calls total_time mean_time rows_str cache_ratio temp temp_row recommendations
    where t: "(if temp then bindE (fmt_comma (q_temp_blks ?query)) (\<lambda>t. Inr [Row Q_temp_blks t])
               else Inr []) = Inr temp_row"
      and out: "out = [Query_title (fst iq) (py_str (q_query_id ?query)),
                  Query_preview [Lit (q_query_preview ?query), Lit (q_query_preview_suffix ?query)],
                  Fixed Param_table_head, Fixed Param_table_sep,
                  Row Q_db (py_str (q_dbname ?query)),
                  Row Q_user (py_str (q_username ?query)),
                  Row Q_calls calls,
                  Row Q_total_time total_time,
                  Row Q_mean_time mean_time,
                  Row Q_rows rows_str,
                  Row Q_cache_hit (cache_ratio @ [Lit ''%''])]
                 @ temp_row @ [Fixed Blank]
                 @ (if q_issues ?query \<noteq> []
                    then [Fixed Problems_head] @ map Bullet (q_issues ?query) @ [Fixed Blank]
                    else [Fixed Query_ok])
                 @ (if recommendations \<noteq> []
                    then [Fixed Advice_head] @ map Advice recommendations @ [Fixed Blank]
                    else [])
                 @ [Fixed Rule]"
    unfolding report_query_def Let_def bindE_Inr_iff by blast
  from guarded_single_quiet [OF t] show ?thesis by (simp add: out map_quiet)
qed

lemma report_top_queries_quiet:
  "report_top_queries qs = Inr out \<Longrightarrow> filter is_wal_activity out = []"
  by (auto simp: report_top_queries_def bindE_Inr_iff split: if_splits
      dest!: concatE_filter_Nil [where P = is_wal_activity, OF _ report_query_quiet])

lemma report_table_quiet:
  "report_table it = Inr out \<Longrightarrow> filter is_wal_activity out = []"
  unfolding report_table_def Let_def bindE_Inr_iff by (auto simp: map_quiet)

lemma report_tables_quiet:
  "report_tables ts = Inr out \<Longrightarrow> filter is_wal_activity out = []"
  by (auto simp: report_tables_def bindE_Inr_iff split: if_splits
      dest!: concatE_filter_Nil [where P = is_wal_activity, OF _ report_table_quiet])

lemma report_indexes_quiet: "filter is_wal_activity (report_indexes xs) = []"
  by (simp add: report_indexes_def map_quiet)

lemma numbered_quiet: "filter is_wal_activity (map (\<lambda>(i, a). Numbered i a) zs) = []"
  by (induction zs) auto

lemma report_summary_quiet:
  assumes "report_summary ds qs ts xs = Inr out"
  shows "filter is_wal_activity out = []"
proof -
  from assms obtain good_things critical recommendations
    where "out = [Heading H_summary, Heading H_good]
                   @ map Good good_things
                   @ [Heading H_critical]
                   @ (if critical = [] then [Fixed No_critical] else map Critical critical)
                   @ [Heading H_recommendations]
                   @ map (\<lambda>(i, advice). Numbered i advice) (enumerate1 recommendations)
                   @ [Fixed Rule_after_list]"
    unfolding report_summary_def Let_def bindE_Inr_iff by blast
  then show ?thesis by (simp add: map_quiet numbered_quiet)
qed


lemma wal_per_min_of_num:
  assumes "num_of size_mb = Some mb"
  shows "wal_per_min_of size_mb duration =
           Inr (if 0 < duration then VFloat (mb / of_int duration) else VInt 0)"
  using assms by (cases size_mb) (auto simp: wal_per_min_of_def)

lemma wal_per_min_of_NaN:
  "wal_per_min_of VNaN duration = Inr (if 0 < duration then VNaN else VInt 0)"
  by (simp add: wal_per_min_of_def)

lemma wal_activity_num:
  "num_of rate = Some r \<Longrightarrow> wal_activity rate = Inr (classify_rate r)"
  by (cases rate) (auto simp: wal_activity_def classify_rate_def py_gt_def)

lemma wal_activity_NaN: "wal_activity VNaN = Inr Wal_normal"
  by (simp add: wal_activity_def py_gt_def)

lemma classify_rate_is_activity: "is_wal_activity (Fixed (classify_rate r))"
  by (simp add: classify_rate_def)

lemma report_wal_activity:
  assumes "report_wal (Some ws) duration = Inr out"
  shows "\<exists>wal_per_min activity.
           wal_per_min_of (w_size_mb ws) duration = Inr wal_per_min
           \<and> wal_activity wal_per_min = Inr activity
           \<and> filter is_wal_activity out = filter is_wal_activity [Fixed activity]"
proof -
  from assms obtain records fpi mb gb write_time sync_time wal_per_min rate activity
    where "wal_per_min_of (w_size_mb ws) duration = Inr wal_per_min"
      and "wal_activity wal_per_min = Inr activity"
      and "out = [Fixed Metric_table_head, Fixed Metric_table_sep,
               Row Wal_records records,
               Row Wal_fpi fpi,
               Row Wal_size (mb @ [Lit '' MB (''] @ gb @ [Lit '' GB)'']),
               Row Wal_write_time write_time,
               Row Wal_sync_time sync_time,
               Wal_rate rate,
               Fixed activity]"
    unfolding report_wal_def option.case bindE_Inr_iff by blast
  then show ?thesis by simp
qed

lemma report_activity_lines:
  assumes "generate_markdown_report rt wb = Inr doc"
    and "analyze_wal_stats wb = Inr wal_stats"
  shows "\<exists>wal. report_wal wal_stats (snd (snd (get_report_period wb))) = Inr wal
           \<and> filter is_wal_activity doc = filter is_wal_activity wal"
proof -
  from assms obtain db_stats top_queries top_wal_queries problem_tables
      databases wal top_wal queries tables summary
    where d: "concatE report_database db_stats = Inr databases"
      and w: "report_wal wal_stats (snd (snd (get_report_period wb))) = Inr wal"
      and tw: "report_top_wal top_wal_queries = Inr top_wal"
      and q: "report_top_queries top_queries = Inr queries"
      and t: "report_tables problem_tables = Inr tables"
      and s: "report_summary db_stats top_queries problem_tables (analyze_indexes wb) = Inr summary"
      and doc: "doc = [Heading Title, Fixed Analysis_date,
               Heading H_period,
               Period_start (map_option py_str (fst (get_report_period wb))),
               Period_end (map_option py_str (fst (snd (get_report_period wb)))),
               Period_duration (snd (snd (get_report_period wb))),
               Fixed Rule,
               Heading H_databases]
              @ databases
              @ [Fixed Rule, Heading H_wal]
              @ wal @ top_wal
              @ [Fixed Rule, Heading H_top_queries]
              @ queries @ tables @ report_indexes (analyze_indexes wb) @ summary
              @ [Heading H_info, Fixed Info_source, Fixed Info_tools, Fixed Info_method,
                 Fixed Info_method_cont, Fixed Info_generated]"
    unfolding generate_markdown_report_def Let_def bindE_Inr_iff by auto
  have "filter is_wal_activity databases = []"
    using concatE_filter_Nil [OF d report_database_quiet] .
  with report_top_wal_quiet [OF tw] report_top_queries_quiet [OF q] report_tables_quiet [OF t]
    report_summary_quiet [OF s] report_indexes_quiet
  have "filter is_wal_activity doc = filter is_wal_activity wal"
    by (simp add: doc)
  with w show ?thesis by blast
qed

text \<open>
  C8. When the report is produced and WAL statistics are present, the generation rate
  is \<open>size_mb / duration\<close> for a positive duration and 0 otherwise, and the report holds
  exactly one of the three classification lines: high for a rate above 100, moderate for
  a rate above 50 and at most 100, normal otherwise. A missing size (NaN) and a
  duration of 0 both give the line for normal.
\<close>

theorem wal_rate_classification:
  assumes "generate_markdown_report rt wb = Inr doc"
    and "analyze_wal_stats wb = Inr (Some ws)"
    and "duration = snd (snd (get_report_period wb))"
  shows "(\<forall>size_mb. num_of (w_size_mb ws) = Some size_mb \<longrightarrow>
            wal_per_min_of (w_size_mb ws) duration
              = Inr (if 0 < duration then VFloat (size_mb / of_int duration) else VInt 0)
            \<and> filter is_wal_activity doc
              = [Fixed (classify_rate (if 0 < duration then size_mb / of_int duration else 0))])
       \<and> (w_size_mb ws = VNaN \<longrightarrow> filter is_wal_activity doc = [Fixed Wal_normal])
       \<and> (duration \<le> 0 \<longrightarrow> filter is_wal_activity doc = [Fixed Wal_normal])"
proof -
  from report_activity_lines [OF assms(1,2)] assms(3) obtain wal
    where w: "report_wal (Some ws) duration = Inr wal"
      and f: "filter is_wal_activity doc = filter is_wal_activity wal"
    by auto
  from report_wal_activity [OF w] f obtain wal_per_min activity
    where p: "wal_per_min_of (w_size_mb ws) duration = Inr wal_per_min"
      and a: "wal_activity wal_per_min = Inr activity"
      and l: "filter is_wal_activity doc = filter is_wal_activity [Fixed activity]"
    by auto
  have num: "wal_per_min_of (w_size_mb ws) duration
               = Inr (if 0 < duration then VFloat (size_mb / of_int duration) else VInt 0)
             \<and> filter is_wal_activity doc
               = [Fixed (classify_rate (if 0 < duration then size_mb / of_int duration else 0))]"
    if "num_of (w_size_mb ws) = Some size_mb" for size_mb
  proof -
    let ?rate = "if 0 < duration then size_mb / of_int duration else 0"
    from p wal_per_min_of_num [OF that, of duration]
    have v: "wal_per_min = (if 0 < duration then VFloat (size_mb / of_int duration) else VInt 0)"
      by simp
    then have "num_of wal_per_min = Some ?rate" by simp
    from wal_activity_num [OF this] a have "activity = classify_rate ?rate" by simp
    with l classify_rate_is_activity [of ?rate] p v show ?thesis by simp
  qed
  have nan: "filter is_wal_activity doc = [Fixed Wal_normal]" if "w_size_mb ws = VNaN"
  proof -
    from p that have "wal_per_min = (if 0 < duration then VNaN else VInt 0)"
      by (simp add: wal_per_min_of_NaN)
    with a have "activity = Wal_normal"
      by (auto simp: wal_activity_NaN wal_activity_def py_gt_def split: if_splits)
    with l show ?thesis by simp
  qed
  have zero: "filter is_wal_activity doc = [Fixed Wal_normal]" if "duration \<le> 0"
  proof -
    from p that have "wal_per_min = VInt 0" by (simp add: wal_per_min_of_def)
    with a have "activity = Wal_normal" by (simp add: wal_activity_def py_gt_def)
    with l show ?thesis by simp
  qed
  from num nan zero show ?thesis by blast
qed

theorem wal_rate_classification_witness:
  "generate_markdown_report example_runtime wal_example = Inr wal_example_report
   \<and> analyze_wal_stats wal_example = Inr (Some wal_example_summary)
   \<and> snd (snd (get_report_period wal_example)) = 2
   \<and> num_of (w_size_mb wal_example_summary) = Some 240
   \<and> wal_per_min_of (w_size_mb wal_example_summary) 2 = Inr (VFloat 120)
   \<and> filter is_wal_activity wal_example_report = [Fixed Wal_high]"
proof -
  have e: "sheet wal_example name = empty_frame"
    if "name \<noteq> ''Properties''" and "name \<noteq> ''wal_stats''" for name
    using that by (simp add: sheet_def wal_example_def)
  have w: "analyze_wal_stats wal_example = Inr (Some wal_example_summary)"
    by (simp add: analyze_wal_stats_def wal_example_def wal_example_summary_def frame_simps)
  have p: "get_report_period wal_example = (None, None, 2)"
    by (simp add: get_report_period_def first_of_column_def wal_example_def trunc_def frame_simps)
  have r: "report_wal (Some wal_example_summary) 2 =
             Inr [Fixed Metric_table_head, Fixed Metric_table_sep,
                  Row Wal_records [IntComma 5000], Row Wal_fpi [IntComma 40],
                  Row Wal_size [FloatFixed 2 240, Lit '' MB ('', FloatFixed 3 (15 / 64), Lit '' GB)''],
                  Row Wal_write_time [FloatFixed 2 0],
                  Row Wal_sync_time [FloatFixed 2 0], Wal_rate [FloatFixed 2 120],
                  Fixed Wal_high]"
    by (simp add: report_wal_def wal_example_summary_def wal_per_min_of_def wal_activity_def
        py_gt_def)
  have g: "generate_markdown_report example_runtime wal_example = Inr wal_example_report"
    by (simp add: generate_markdown_report_def w p r e df_empty_empty_frame Let_def
        analyze_database_stats_def analyze_top_queries_def
        analyze_top_wal_queries_def analyze_tables_def analyze_indexes_def
        report_summary_def concatE_def enumerate1_def
        report_top_wal_def report_top_queries_def report_tables_def
        report_indexes_def wal_example_report_def)
  have d: "snd (snd (get_report_period wal_example)) = 2"
    by (simp add: p)
  have n: "num_of (w_size_mb wal_example_summary) = Some 240"
    by (simp add: wal_example_summary_def)
  from wal_rate_classification [OF g w d [symmetric]] n
  have "wal_per_min_of (w_size_mb wal_example_summary) 2 = Inr (VFloat (240 / of_int 2))"
    and "filter is_wal_activity wal_example_report = [Fixed (classify_rate (240 / of_int 2))]"
    by auto
  then have "wal_per_min_of (w_size_mb wal_example_summary) 2 = Inr (VFloat 120)"
    and "filter is_wal_activity wal_example_report = [Fixed Wal_high]"
    by (simp_all add: classify_rate_def)
  with g w d n show ?thesis by simp
qed

end
